theory Spec2Isabelle
  imports Complex_Main
begin

section \<open>Force diagrams of the bridge girders: the data\<close>

text \<open>
  The scripts \<^verbatim>\<open>task1_2d.py\<close> and \<^verbatim>\<open>task2_3d.py\<close> read three tables: the results
  dataset \<^verbatim>\<open>ds.forces\<close> (indexed by element id and component name), the element table
  \<^verbatim>\<open>members\<close> (element id to start and end node) and the node table \<^verbatim>\<open>nodes\<close>
  (node id to coordinates). Their contents are data files, so they are parameters here.
  Python floats are idealised as real numbers: rounding, overflow and infinities are
  outside the model. Two effects of the doubles on finite data are kept: the
  not-a-number of the 2D hatching (numpy's \<^verbatim>\<open>0/0\<close>), as the value \<open>None\<close> of a
  \<open>real option\<close>, and the underflow of the product in the zero-crossing test.
\<close>

type_synonym elem_id = int
type_synonym node_id = int
type_synonym coord = "real \<times> real \<times> real"
type_synonym dataset = "elem_id \<times> string \<Rightarrow> real option"
type_synonym member_table = "elem_id \<Rightarrow> (node_id \<times> node_id) option"
type_synonym node_table = "node_id \<Rightarrow> coord option"

datatype key_origin = Dataset | Members | Nodes

datatype py_error = KeyError key_origin | ValueError | ZeroDivisionError

text \<open>\<^verbatim>\<open>ds.forces.sel(Element=eid, Component=component)\<close>: a label that is absent raises.\<close>

definition sel :: "dataset \<Rightarrow> elem_id \<Rightarrow> string \<Rightarrow> py_error + real" where
  "sel ds eid component = (case ds (eid, component) of None \<Rightarrow> Inl (KeyError Dataset) | Some v \<Rightarrow> Inr v)"

text \<open>\<^verbatim>\<open>members[eid]\<close> and \<^verbatim>\<open>nodes[n]\<close>: dictionary subscripts.\<close>

definition member_of :: "member_table \<Rightarrow> elem_id \<Rightarrow> py_error + (node_id \<times> node_id)" where
  "member_of members eid = (case members eid of None \<Rightarrow> Inl (KeyError Members) | Some p \<Rightarrow> Inr p)"

definition node_of :: "node_table \<Rightarrow> node_id \<Rightarrow> py_error + coord" where
  "node_of nodes n = (case nodes n of None \<Rightarrow> Inl (KeyError Nodes) | Some c \<Rightarrow> Inr c)"

text \<open>Sequencing of steps that may raise: the first exception ends the run.\<close>

definition and_then :: "'e + 'a \<Rightarrow> ('a \<Rightarrow> 'e + 'b) \<Rightarrow> 'e + 'b" where
  "and_then r f = (case r of Inl e \<Rightarrow> Inl e | Inr a \<Rightarrow> f a)"

text \<open>
  A \<^verbatim>\<open>for\<close> loop over a list whose body updates the loop's variables and may
  raise: the body runs on each item in order, and an exception leaves the loop.
\<close>

fun for_each :: "('a \<Rightarrow> 's \<Rightarrow> 'e + 's) \<Rightarrow> 'a list \<Rightarrow> 's \<Rightarrow> 'e + 's" where
  "for_each body [] st = Inr st"
| "for_each body (x # xs) st = and_then (body x st) (for_each body xs)"

section \<open>The 2D diagram of the central girder (\<^verbatim>\<open>task1_2d.py\<close>)\<close>

definition CENTRAL_GIRDER_IDS :: "elem_id list" where
  "CENTRAL_GIRDER_IDS = [15, 24, 33, 42, 51, 60, 69, 78, 83]"

text \<open>
  What \<^verbatim>\<open>fig\<close> collects. A shape is a hatch line from \<open>(x0, y0)\<close> to \<open>(x1, y1)\<close>; its
  end \<open>y1\<close> is \<open>None\<close> when numpy computed not-a-number. An annotation has a
  position and a text: the zero-crossing label carries \<open>x_zero\<close>, the extremum label
  its name, value and unit. Colours, fonts and the layout are left out.
\<close>

record shape =
  sh_x0 :: real
  sh_y0 :: real
  sh_x1 :: real
  sh_y1 :: "real option"

datatype ann_text = ZeroText real | ExtremeText string real string

record annotation =
  ann_x :: real
  ann_y :: real
  ann_text :: ann_text

record scatter =
  scatter_x :: "real list"
  scatter_y :: "real list"
  scatter_color :: string
  scatter_name :: string

record figure =
  shapes :: "shape list"
  annotations :: "annotation list"
  traces :: "scatter list"

text \<open>The state of the element loop: the figure so far and the two path lists.\<close>

record plot_state =
  fig :: figure
  x_full_path :: "real list"
  y_full_path :: "real list"

definition empty_figure :: figure where
  "empty_figure = \<lparr>shapes = [], annotations = [], traces = []\<rparr>"

definition initial_state :: plot_state where
  "initial_state = \<lparr>fig = empty_figure, x_full_path = [], y_full_path = []\<rparr>"

text \<open>
  \<^verbatim>\<open>np.linspace(start, stop, num)\<close>: \<open>num\<close> points \<open>start + k * step\<close> with
  \<open>step = (stop - start) / (num - 1)\<close>, the last one set to \<open>stop\<close>.
\<close>

definition linspace :: "real \<Rightarrow> real \<Rightarrow> nat \<Rightarrow> real list" where
  "linspace start stop num =
     (if num = 0 then []
      else if num = 1 then [start]
      else (map (\<lambda>k. start + real k * ((stop - start) / real (num - 1))) [0..<num])
             [num - 1 := stop])"

definition hatch_density :: nat where
  "hatch_density = 12"

text \<open>
  Line 90: \<^verbatim>\<open>hy = val_start if is_step else val_start + (val_end - val_start) * (hx - x_i) / (x_j - x_i)\<close>.
  \<open>hx\<close> is a numpy float, so a zero divisor does not raise: the quotient is
  not-a-number (the numerator is zero too, since every \<open>hx\<close> equals \<open>x_i\<close> then).
\<close>

definition hatch_value :: "bool \<Rightarrow> real \<Rightarrow> real \<Rightarrow> real \<Rightarrow> real \<Rightarrow> real \<Rightarrow> real option" where
  "hatch_value is_step x_i x_j val_start val_end hx =
     (if is_step then Some val_start
      else if x_j - x_i = 0 then None
      else Some (val_start + (val_end - val_start) * (hx - x_i) / (x_j - x_i)))"

definition hatch_shape :: "bool \<Rightarrow> real \<Rightarrow> real \<Rightarrow> real \<Rightarrow> real \<Rightarrow> real \<Rightarrow> shape" where
  "hatch_shape is_step x_i x_j val_start val_end hx =
     \<lparr>sh_x0 = hx, sh_y0 = 0, sh_x1 = hx, sh_y1 = hatch_value is_step x_i x_j val_start val_end hx\<rparr>"

text \<open>
  Lines 98 to 104: the zero-crossing label. The guard \<^verbatim>\<open>val_i * val_j < 0\<close> tests the
  double product. A product of magnitude at most \<open>1 / 2 ^ 1075\<close>, half the smallest
  positive double, is rounded to zero (to nearest, ties to even), and every larger one
  to a nonzero double of its sign: the guard holds exactly when the product of the two
  numbers is below \<open>- (1 / 2 ^ 1075)\<close>. The divisor \<open>val_j - val_i\<close> is not zero under
  the guard, so the division needs no error branch.
\<close>

definition half_min_subnormal :: real where
  "half_min_subnormal = 1 / 2 ^ 1075"

definition zero_crossing :: "bool \<Rightarrow> real \<Rightarrow> real \<Rightarrow> real \<Rightarrow> real \<Rightarrow> annotation list" where
  "zero_crossing is_step x_i x_j val_i val_j =
     (if \<not> is_step \<and> val_i * val_j < - half_min_subnormal
      then (let x_zero = x_i - val_i * (x_j - x_i) / (val_j - val_i)
            in [\<lparr>ann_x = x_zero, ann_y = 0, ann_text = ZeroText x_zero\<rparr>])
      else [])"

text \<open>Lines 57 to 64: the coordinates and the two samples of one element, in the order read.\<close>

definition element_inputs ::
  "dataset \<Rightarrow> member_table \<Rightarrow> node_table \<Rightarrow> string \<Rightarrow> string \<Rightarrow> elem_id
     \<Rightarrow> py_error + (real \<times> real \<times> real \<times> real)" where
  "element_inputs ds members nodes comp_i comp_j eid =
     and_then (member_of members eid) (\<lambda>(start_node, end_node).
     and_then (node_of nodes start_node) (\<lambda>(x_i, _, _).
     and_then (node_of nodes end_node) (\<lambda>(x_j, _, _).
     and_then (sel ds eid comp_i) (\<lambda>val_i.
     and_then (sel ds eid comp_j) (\<lambda>val_j.
     Inr (x_i, x_j, val_i, val_j))))))"

text \<open>Lines 66 to 104: what one element adds to the path and to the figure.\<close>

definition element_update :: "bool \<Rightarrow> real \<times> real \<times> real \<times> real \<Rightarrow> plot_state \<Rightarrow> plot_state" where
  "element_update is_step inp st =
     (case inp of (x_i, x_j, val_i, val_j) \<Rightarrow>
        (let x_segment = [x_i, x_j];
             y_segment = (if is_step then [val_i, val_i] else [val_i, val_j]);
             val_start = val_i;
             val_end = (if is_step then val_i else val_j);
             hatch_x = linspace x_i x_j hatch_density;
             f = fig st
         in \<lparr>fig = f\<lparr>shapes := shapes f @ map (hatch_shape is_step x_i x_j val_start val_end) hatch_x,
                      annotations := annotations f @ zero_crossing is_step x_i x_j val_i val_j\<rparr>,
             x_full_path = x_full_path st @ x_segment,
             y_full_path = y_full_path st @ y_segment\<rparr>))"

text \<open>Lines 55 to 104: the body of the loop over the girder's elements.\<close>

definition element_step ::
  "dataset \<Rightarrow> member_table \<Rightarrow> node_table \<Rightarrow> string \<Rightarrow> string \<Rightarrow> bool
     \<Rightarrow> elem_id \<Rightarrow> plot_state \<Rightarrow> py_error + plot_state" where
  "element_step ds members nodes comp_i comp_j is_step eid st =
     and_then (element_inputs ds members nodes comp_i comp_j eid) (\<lambda>inp.
       Inr (element_update is_step inp st))"

text \<open>
  \<^verbatim>\<open>np.argmax\<close> and \<^verbatim>\<open>np.argmin\<close>: one scan that keeps the index of the best value so
  far and moves only on a strictly better one; an empty array raises.
\<close>

fun argmax_scan :: "nat \<Rightarrow> real \<Rightarrow> nat \<Rightarrow> real list \<Rightarrow> nat" where
  "argmax_scan best bv i [] = best"
| "argmax_scan best bv i (y # ys) =
     (if bv < y then argmax_scan i y (Suc i) ys else argmax_scan best bv (Suc i) ys)"

fun argmin_scan :: "nat \<Rightarrow> real \<Rightarrow> nat \<Rightarrow> real list \<Rightarrow> nat" where
  "argmin_scan best bv i [] = best"
| "argmin_scan best bv i (y # ys) =
     (if y < bv then argmin_scan i y (Suc i) ys else argmin_scan best bv (Suc i) ys)"

definition argmax :: "real list \<Rightarrow> py_error + nat" where
  "argmax ys = (case ys of [] \<Rightarrow> Inl ValueError | y # rest \<Rightarrow> Inr (argmax_scan 0 y 1 rest))"

definition argmin :: "real list \<Rightarrow> py_error + nat" where
  "argmin ys = (case ys of [] \<Rightarrow> Inl ValueError | y # rest \<Rightarrow> Inr (argmin_scan 0 y 1 rest))"

definition extreme_annotation :: "plot_state \<Rightarrow> string \<Rightarrow> nat \<Rightarrow> string \<Rightarrow> annotation" where
  "extreme_annotation st unit idx label =
     \<lparr>ann_x = x_full_path st ! idx, ann_y = y_full_path st ! idx,
      ann_text = ExtremeText label (y_full_path st ! idx) unit\<rparr>"

text \<open>Lines 106 to 138: the boundary trace, then the two extremum labels.\<close>

definition finish_plot :: "string \<Rightarrow> string \<Rightarrow> string \<Rightarrow> plot_state \<Rightarrow> py_error + figure" where
  "finish_plot title color unit st =
     (let f = fig st;
          f1 = f\<lparr>traces := traces f @
                 [\<lparr>scatter_x = x_full_path st, scatter_y = y_full_path st,
                   scatter_color = color, scatter_name = title\<rparr>]\<rparr>
      in and_then (argmax (y_full_path st)) (\<lambda>max_idx.
         and_then (argmin (y_full_path st)) (\<lambda>min_idx.
         Inr (f1\<lparr>annotations := annotations f1 @
                [extreme_annotation st unit max_idx ''MAX'',
                 extreme_annotation st unit min_idx ''MIN'']\<rparr>))))"

text \<open>
  \<^verbatim>\<open>generate_midas_style_plot\<close>, with the tables and the girder's element list as
  arguments; the script runs it on \<open>CENTRAL_GIRDER_IDS\<close>.
\<close>

definition plot_girder ::
  "dataset \<Rightarrow> member_table \<Rightarrow> node_table \<Rightarrow> elem_id list
     \<Rightarrow> string \<Rightarrow> string \<Rightarrow> string \<Rightarrow> string \<Rightarrow> string \<Rightarrow> bool \<Rightarrow> py_error + figure" where
  "plot_girder ds members nodes girder comp_i comp_j title color unit is_step =
     and_then (for_each (element_step ds members nodes comp_i comp_j is_step) girder initial_state)
       (finish_plot title color unit)"

definition generate_midas_style_plot ::
  "dataset \<Rightarrow> member_table \<Rightarrow> node_table
     \<Rightarrow> string \<Rightarrow> string \<Rightarrow> string \<Rightarrow> string \<Rightarrow> string \<Rightarrow> bool \<Rightarrow> py_error + figure" where
  "generate_midas_style_plot ds members nodes comp_i comp_j title color unit is_step =
     plot_girder ds members nodes CENTRAL_GIRDER_IDS comp_i comp_j title color unit is_step"

section \<open>The 3D diagram of all girders (\<^verbatim>\<open>task2_3d.py\<close>)\<close>

text \<open>
  \<^verbatim>\<open>GIRDERS\<close> is a dictionary in insertion order, from the girder's name to its
  element list and its node list.
\<close>

record girder =
  g_elements :: "elem_id list"
  g_nodes :: "node_id list"

definition GIRDERS :: "(string \<times> girder) list" where
  "GIRDERS =
     [(''Girder 1'', \<lparr>g_elements = [13, 22, 31, 40, 49, 58, 67, 76, 81],
                      g_nodes = [1, 11, 16, 21, 26, 31, 36, 41, 46, 6]\<rparr>),
      (''Girder 2'', \<lparr>g_elements = [14, 23, 32, 41, 50, 59, 68, 77, 82],
                      g_nodes = [2, 12, 17, 22, 27, 32, 37, 42, 47, 7]\<rparr>),
      (''Girder 3'', \<lparr>g_elements = [15, 24, 33, 42, 51, 60, 69, 78, 83],
                      g_nodes = [3, 13, 18, 23, 28, 33, 38, 43, 48, 8]\<rparr>),
      (''Girder 4'', \<lparr>g_elements = [16, 25, 34, 43, 52, 61, 70, 79, 84],
                      g_nodes = [4, 14, 19, 24, 29, 34, 39, 44, 49, 9]\<rparr>),
      (''Girder 5'', \<lparr>g_elements = [17, 26, 35, 44, 53, 62, 71, 80, 85],
                      g_nodes = [5, 15, 20, 25, 30, 35, 40, 45, 50, 10]\<rparr>)]"

text \<open>Python's \<^verbatim>\<open>sub in s\<close> on strings, for \<^verbatim>\<open>"Vy" in comp_i\<close>.\<close>

fun str_contains :: "string \<Rightarrow> string \<Rightarrow> bool" where
  "str_contains sub [] = (sub = [])"
| "str_contains sub (c # cs) = (take (length sub) (c # cs) = sub \<or> str_contains sub cs)"

definition diagram_type :: "string \<Rightarrow> string" where
  "diagram_type comp_i = (if str_contains ''Vy'' comp_i then ''SFD'' else ''BMD'')"

text \<open>Python's \<^verbatim>\<open>max\<close> and \<^verbatim>\<open>min\<close> of a list (an empty list raises) and float division.\<close>

definition py_max :: "real list \<Rightarrow> py_error + real" where
  "py_max xs = (case xs of [] \<Rightarrow> Inl ValueError | x # rest \<Rightarrow> Inr (fold max rest x))"

definition py_min :: "real list \<Rightarrow> py_error + real" where
  "py_min xs = (case xs of [] \<Rightarrow> Inl ValueError | x # rest \<Rightarrow> Inr (fold min rest x))"

definition py_div :: "real \<Rightarrow> real \<Rightarrow> py_error + real" where
  "py_div a b = (if b = 0 then Inl ZeroDivisionError else Inr (a / b))"

text \<open>Lines 50 to 55: the first pass reads both samples of every element of every girder.\<close>

definition sample_step ::
  "dataset \<Rightarrow> string \<Rightarrow> string \<Rightarrow> elem_id \<Rightarrow> real list \<Rightarrow> py_error + real list" where
  "sample_step ds comp_i comp_j eid all_forces =
     and_then (sel ds eid comp_i) (\<lambda>v_i.
     and_then (sel ds eid comp_j) (\<lambda>v_j.
     Inr (all_forces @ [v_i, v_j])))"

definition sample_girders ::
  "dataset \<Rightarrow> string \<Rightarrow> string \<Rightarrow> (string \<times> girder) list \<Rightarrow> py_error + real list" where
  "sample_girders ds comp_i comp_j girders =
     for_each (\<lambda>g_data. for_each (sample_step ds comp_i comp_j) (g_elements (snd g_data)))
       girders []"

text \<open>Lines 60 to 66: the height scale and the colour limits.\<close>

definition TARGET_HEIGHT :: real where
  "TARGET_HEIGHT = 5.0"

record scaling =
  max_abs_val :: real
  HEIGHT_SCALE :: real
  C_MIN :: real
  C_MAX :: real

definition global_scaling :: "real list \<Rightarrow> py_error + scaling" where
  "global_scaling all_forces =
     (let abs_forces = map abs all_forces
      in and_then (if abs_forces \<noteq> [] then py_max abs_forces else Inr 1.0) (\<lambda>m.
         and_then (py_div TARGET_HEIGHT m) (\<lambda>h.
         and_then (py_min all_forces) (\<lambda>lo.
         and_then (py_max all_forces) (\<lambda>hi.
         Inr \<lparr>max_abs_val = m, HEIGHT_SCALE = h, C_MIN = lo, C_MAX = hi\<rparr>)))))"

text \<open>
  The traces of the 3D figure. Coordinate lists hold \<open>None\<close> where the script appends
  Python's \<^verbatim>\<open>None\<close> to break the line. A line is gray (the beam axis) or coloured by
  values on a scale with limits \<open>cmin\<close> and \<open>cmax\<close>.
\<close>

datatype line_color = Gray | Colorscale "real list" real real bool

record trace3d =
  t_x :: "real option list"
  t_y :: "real option list"
  t_z :: "real option list"
  t_line :: line_color

record figure3d =
  traces3d :: "trace3d list"
  title3d :: string

text \<open>The four lists of an outline or of a hatching, as the element loop extends them.\<close>

record polyline =
  p_x :: "real option list"
  p_y :: "real option list"
  p_z :: "real option list"
  p_c :: "real list"

definition empty_polyline :: polyline where
  "empty_polyline = \<lparr>p_x = [], p_y = [], p_z = [], p_c = []\<rparr>"

definition extend_polyline :: "polyline \<Rightarrow> polyline \<Rightarrow> polyline" where
  "extend_polyline p q =
     \<lparr>p_x = p_x p @ p_x q, p_y = p_y p @ p_y q, p_z = p_z p @ p_z q, p_c = p_c p @ p_c q\<rparr>"

text \<open>Lines 80 to 84: the beam axis of one girder, with the depth widened.\<close>

definition baseline_step :: "node_table \<Rightarrow> real \<Rightarrow> node_id \<Rightarrow> polyline \<Rightarrow> py_error + polyline" where
  "baseline_step nodes ze n b =
     and_then (node_of nodes n) (\<lambda>(x, _, z).
       Inr (b\<lparr>p_x := p_x b @ [Some x], p_y := p_y b @ [Some 0], p_z := p_z b @ [Some (z * ze)]\<rparr>))"

text \<open>Lines 111 to 127: heights, colours and the outline piece of one element.\<close>

definition element_heights :: "string \<Rightarrow> real \<Rightarrow> real \<Rightarrow> real \<Rightarrow> real \<times> real \<times> real \<times> real" where
  "element_heights dtype scale val1 val2 =
     (if dtype = ''SFD''
      then (val1 * scale, val1 * scale, val1, val1)
      else (val1 * scale, val2 * scale, val1, val2))"

definition outline_piece ::
  "real \<Rightarrow> real \<Rightarrow> real \<Rightarrow> real \<Rightarrow> real \<times> real \<times> real \<times> real \<Rightarrow> polyline" where
  "outline_piece x1 z1 x2 z2 hc =
     (case hc of (h1, h2, c1, c2) \<Rightarrow>
        \<lparr>p_x = [Some x1, Some x2, None], p_y = [Some h1, Some h2, None],
         p_z = [Some z1, Some z2, None], p_c = [c1, c2, c2]\<rparr>)"

text \<open>Lines 130 to 146: the fence of one element, one vertical line for each \<open>k\<close>.\<close>

definition num_lines :: nat where
  "num_lines = 10"

definition hatch_line ::
  "real \<Rightarrow> real \<Rightarrow> real \<Rightarrow> real \<Rightarrow> real \<times> real \<times> real \<times> real \<Rightarrow> nat \<Rightarrow> polyline" where
  "hatch_line x1 z1 x2 z2 hc k =
     (case hc of (h1, h2, c1, c2) \<Rightarrow>
        (let frac = real k / real num_lines;
             cx = x1 + (x2 - x1) * frac;
             cz = z1 + (z2 - z1) * frac;
             ch = h1 + (h2 - h1) * frac;
             cc = c1 + (c2 - c1) * frac
         in \<lparr>p_x = [Some cx, Some cx, None], p_y = [Some 0, Some ch, None],
             p_z = [Some cz, Some cz, None], p_c = [cc, cc, cc]\<rparr>))"

definition hatch_piece ::
  "real \<Rightarrow> real \<Rightarrow> real \<Rightarrow> real \<Rightarrow> real \<times> real \<times> real \<times> real \<Rightarrow> polyline" where
  "hatch_piece x1 z1 x2 z2 hc =
     fold (\<lambda>k acc. extend_polyline acc (hatch_line x1 z1 x2 z2 hc k)) [0..<num_lines + 1] empty_polyline"

text \<open>Lines 99 to 108: what the second pass reads for one element.\<close>

definition element_inputs3d ::
  "dataset \<Rightarrow> member_table \<Rightarrow> node_table \<Rightarrow> real \<Rightarrow> string \<Rightarrow> string \<Rightarrow> elem_id
     \<Rightarrow> py_error + (real \<times> real \<times> real \<times> real \<times> real \<times> real)" where
  "element_inputs3d ds members nodes ze comp_i comp_j eid =
     and_then (member_of members eid) (\<lambda>(sn, en).
     and_then (node_of nodes sn) (\<lambda>(x1, _, z1).
     and_then (node_of nodes en) (\<lambda>(x2, _, z2).
     and_then (sel ds eid comp_i) (\<lambda>val1.
     and_then (sel ds eid comp_j) (\<lambda>val2.
     Inr (x1, z1 * ze, x2, z2 * ze, val1, val2))))))"

definition element_update3d ::
  "string \<Rightarrow> real \<Rightarrow> real \<times> real \<times> real \<times> real \<times> real \<times> real
     \<Rightarrow> polyline \<times> polyline \<Rightarrow> polyline \<times> polyline" where
  "element_update3d dtype scale inp st =
     (case inp of (x1, z1, x2, z2, val1, val2) \<Rightarrow>
        (let hc = element_heights dtype scale val1 val2
         in (extend_polyline (fst st) (outline_piece x1 z1 x2 z2 hc),
             extend_polyline (snd st) (hatch_piece x1 z1 x2 z2 hc))))"

definition element_step3d ::
  "dataset \<Rightarrow> member_table \<Rightarrow> node_table \<Rightarrow> real \<Rightarrow> string \<Rightarrow> string \<Rightarrow> string \<Rightarrow> real
     \<Rightarrow> elem_id \<Rightarrow> polyline \<times> polyline \<Rightarrow> py_error + polyline \<times> polyline" where
  "element_step3d ds members nodes ze comp_i comp_j dtype scale eid st =
     and_then (element_inputs3d ds members nodes ze comp_i comp_j eid) (\<lambda>inp.
       Inr (element_update3d dtype scale inp st))"

text \<open>Lines 76 to 174: the three traces of one girder.\<close>

definition colored_trace :: "scaling \<Rightarrow> bool \<Rightarrow> polyline \<Rightarrow> trace3d" where
  "colored_trace sc showscale p =
     \<lparr>t_x = p_x p, t_y = p_y p, t_z = p_z p,
      t_line = Colorscale (p_c p) (C_MIN sc) (C_MAX sc) showscale\<rparr>"

definition girder_traces ::
  "dataset \<Rightarrow> member_table \<Rightarrow> node_table \<Rightarrow> real \<Rightarrow> string \<Rightarrow> string \<Rightarrow> scaling
     \<Rightarrow> string \<times> girder \<Rightarrow> py_error + trace3d list" where
  "girder_traces ds members nodes ze comp_i comp_j sc g =
     and_then (for_each (baseline_step nodes ze) (g_nodes (snd g)) empty_polyline) (\<lambda>b.
     and_then (for_each (element_step3d ds members nodes ze comp_i comp_j (diagram_type comp_i)
                 (HEIGHT_SCALE sc)) (g_elements (snd g)) (empty_polyline, empty_polyline))
       (\<lambda>(outline, hatch).
          Inr [\<lparr>t_x = p_x b, t_y = p_y b, t_z = p_z b, t_line = Gray\<rparr>,
               colored_trace sc False outline,
               colored_trace sc (fst g = ''Girder 1'') hatch]))"

definition girder_step ::
  "dataset \<Rightarrow> member_table \<Rightarrow> node_table \<Rightarrow> real \<Rightarrow> string \<Rightarrow> string \<Rightarrow> scaling
     \<Rightarrow> string \<times> girder \<Rightarrow> trace3d list \<Rightarrow> py_error + trace3d list" where
  "girder_step ds members nodes ze comp_i comp_j sc g ts =
     and_then (girder_traces ds members nodes ze comp_i comp_j sc g) (\<lambda>new. Inr (ts @ new))"

text \<open>
  \<^verbatim>\<open>create_midas_polished_plot\<close>, with the tables, the girders and the depth expansion
  factor as arguments; the script fixes the girders to \<open>GIRDERS\<close> and the factor to 1.5.
\<close>

definition plot_girders ::
  "dataset \<Rightarrow> member_table \<Rightarrow> node_table \<Rightarrow> (string \<times> girder) list \<Rightarrow> real
     \<Rightarrow> string \<Rightarrow> string \<Rightarrow> string \<Rightarrow> py_error + figure3d" where
  "plot_girders ds members nodes girders ze comp_i comp_j title =
     and_then (sample_girders ds comp_i comp_j girders) (\<lambda>all_forces.
     and_then (global_scaling all_forces) (\<lambda>sc.
     and_then (for_each (girder_step ds members nodes ze comp_i comp_j sc) girders []) (\<lambda>ts.
     Inr \<lparr>traces3d = ts, title3d = title\<rparr>)))"

definition Z_EXPANSION :: real where
  "Z_EXPANSION = 1.5"

definition create_midas_polished_plot ::
  "dataset \<Rightarrow> member_table \<Rightarrow> node_table \<Rightarrow> string \<Rightarrow> string \<Rightarrow> string \<Rightarrow> py_error + figure3d" where
  "create_midas_polished_plot ds members nodes comp_i comp_j title =
     plot_girders ds members nodes GIRDERS Z_EXPANSION comp_i comp_j title"

section \<open>Inputs read, results computed\<close>

text \<open>
  Reading a list of inputs in order, up to the first exception. Every loop of the two
  scripts reads its inputs this way and then only computes, so a run is described by
  the list of inputs it read.
\<close>

fun collect :: "('a \<Rightarrow> 'e + 'b) \<Rightarrow> 'a list \<Rightarrow> 'e + 'b list" where
  "collect read [] = Inr []"
| "collect read (x # xs) =
     and_then (read x) (\<lambda>v. and_then (collect read xs) (\<lambda>vs. Inr (v # vs)))"

text \<open>
  The boundary path of the 2D figure and the hatching of a linear element, from the
  inputs of the girder's elements.
\<close>

definition profile_x :: "(real \<times> real \<times> real \<times> real) list \<Rightarrow> real list" where
  "profile_x inps = concat (map (\<lambda>(x_i, x_j, val_i, val_j). [x_i, x_j]) inps)"

definition profile_y :: "bool \<Rightarrow> (real \<times> real \<times> real \<times> real) list \<Rightarrow> real list" where
  "profile_y is_step inps =
     concat (map (\<lambda>(x_i, x_j, val_i, val_j). [val_i, if is_step then val_i else val_j]) inps)"

definition linear_hatch :: "real \<times> real \<times> real \<times> real \<Rightarrow> shape list" where
  "linear_hatch inp =
     (case inp of (x_i, x_j, val_i, val_j) \<Rightarrow>
        map (hatch_shape False x_i x_j val_i val_j) (linspace x_i x_j hatch_density))"

text \<open>
  The inputs and the pieces of the 3D figure: the pair of samples of an element, the
  samples of a girder, and the outline and fence of a girder as the concatenation of
  its elements' pieces.
\<close>

definition sample_pair :: "dataset \<Rightarrow> string \<Rightarrow> string \<Rightarrow> elem_id \<Rightarrow> py_error + real \<times> real" where
  "sample_pair ds comp_i comp_j eid =
     and_then (sel ds eid comp_i) (\<lambda>v_i. and_then (sel ds eid comp_j) (\<lambda>v_j. Inr (v_i, v_j)))"

definition pair_list :: "(real \<times> real) list \<Rightarrow> real list" where
  "pair_list vs = concat (map (\<lambda>(v_i, v_j). [v_i, v_j]) vs)"

definition girder_samples ::
  "dataset \<Rightarrow> string \<Rightarrow> string \<Rightarrow> string \<times> girder \<Rightarrow> py_error + (real \<times> real) list" where
  "girder_samples ds comp_i comp_j g = collect (sample_pair ds comp_i comp_j) (g_elements (snd g))"

definition samples_of :: "real \<times> real \<times> real \<times> real \<times> real \<times> real \<Rightarrow> real \<times> real" where
  "samples_of inp = (case inp of (x1, z1, x2, z2, val1, val2) \<Rightarrow> (val1, val2))"

definition join_polylines :: "polyline list \<Rightarrow> polyline" where
  "join_polylines ps =
     \<lparr>p_x = concat (map p_x ps), p_y = concat (map p_y ps),
      p_z = concat (map p_z ps), p_c = concat (map p_c ps)\<rparr>"

definition element_pieces ::
  "string \<Rightarrow> real \<Rightarrow> real \<times> real \<times> real \<times> real \<times> real \<times> real \<Rightarrow> polyline \<times> polyline" where
  "element_pieces dtype scale inp =
     (case inp of (x1, z1, x2, z2, val1, val2) \<Rightarrow>
        (outline_piece x1 z1 x2 z2 (element_heights dtype scale val1 val2),
         hatch_piece x1 z1 x2 z2 (element_heights dtype scale val1 val2)))"

definition axis_line :: "real \<Rightarrow> coord list \<Rightarrow> polyline" where
  "axis_line ze cs =
     \<lparr>p_x = map (\<lambda>(x, y, z). Some x) cs, p_y = map (\<lambda>c. Some 0) cs,
      p_z = map (\<lambda>(x, y, z). Some (z * ze)) cs, p_c = []\<rparr>"

definition girder_traces_of ::
  "string \<Rightarrow> scaling \<Rightarrow> string \<Rightarrow> polyline
     \<Rightarrow> (real \<times> real \<times> real \<times> real \<times> real \<times> real) list \<Rightarrow> trace3d list" where
  "girder_traces_of dtype sc name axis inps =
     [\<lparr>t_x = p_x axis, t_y = p_y axis, t_z = p_z axis, t_line = Gray\<rparr>,
      colored_trace sc False (join_polylines (map (fst \<circ> element_pieces dtype (HEIGHT_SCALE sc)) inps)),
      colored_trace sc (name = ''Girder 1'')
        (join_polylines (map (snd \<circ> element_pieces dtype (HEIGHT_SCALE sc)) inps))]"

section \<open>The properties, in the words of the specification\<close>

text \<open>
  The label of a zero crossing, as the specification describes it: at the root of the
  line through the two end values. And the magnitudes at which no intermediate result
  of the scripts' arithmetic overflows a double.
\<close>

definition is_zero_label :: "annotation \<Rightarrow> bool" where
  "is_zero_label a = (case ann_text a of ZeroText _ \<Rightarrow> True | ExtremeText _ _ _ \<Rightarrow> False)"



text \<open>
  The reported extremum is the first one in traversal order: no other point is larger
  (smaller), and every earlier point is strictly smaller (larger).
\<close>

definition first_maximum :: "real list \<Rightarrow> nat \<Rightarrow> bool" where
  "first_maximum ys idx =
     (idx < length ys \<and> list_all (\<lambda>y. y \<le> ys ! idx) ys \<and> list_all (\<lambda>y. y < ys ! idx) (take idx ys))"

definition first_minimum :: "real list \<Rightarrow> nat \<Rightarrow> bool" where
  "first_minimum ys idx =
     (idx < length ys \<and> list_all (\<lambda>y. ys ! idx \<le> y) ys \<and> list_all (\<lambda>y. ys ! idx < y) (take idx ys))"

text \<open>
  The heights the specification expects in the 3D figure: each sample times the one
  scale, the segment's end value being the start sample in a shear diagram.
\<close>

definition end_value :: "string \<Rightarrow> real \<times> real \<Rightarrow> real" where
  "end_value dtype v = (if dtype = ''SFD'' then fst v else snd v)"

definition scaled_outline :: "string \<Rightarrow> real \<Rightarrow> (real \<times> real) list \<Rightarrow> real option list" where
  "scaled_outline dtype scale vs =
     concat (map (\<lambda>v. [Some (fst v * scale), Some (end_value dtype v * scale), None]) vs)"

definition scaled_fence :: "string \<Rightarrow> real \<Rightarrow> (real \<times> real) list \<Rightarrow> real option list" where
  "scaled_fence dtype scale vs =
     concat (map (\<lambda>v. concat (map (\<lambda>k.
        [Some 0,
         Some (fst v * scale + (end_value dtype v * scale - fst v * scale) * (real k / 10)),
         None]) [0..<11])) vs)"

text \<open>
  An element whose nodes the two tables know.
\<close>

definition topology_resolves :: "member_table \<Rightarrow> node_table \<Rightarrow> elem_id \<Rightarrow> bool" where
  "topology_resolves members nodes eid =
     (case members eid of None \<Rightarrow> False
      | Some (start_node, end_node) \<Rightarrow> nodes start_node \<noteq> None \<and> nodes end_node \<noteq> None)"

text \<open>
  A girder is contiguous when each element ends at the node where the next one starts;
  a list of segments has no gaps when each segment starts where the one before it ends.
\<close>

fun contiguous :: "member_table \<Rightarrow> elem_id list \<Rightarrow> bool" where
  "contiguous members (e1 # e2 # rest) =
     ((case (members e1, members e2) of
         (Some (start1, end1), Some (start2, end2)) \<Rightarrow> end1 = start2
       | _ \<Rightarrow> False)
      \<and> contiguous members (e2 # rest))"
| "contiguous members [e] = True"
| "contiguous members [] = True"

fun gap_free :: "('a \<times> 'a) list \<Rightarrow> bool" where
  "gap_free (s1 # s2 # rest) = (snd s1 = fst s2 \<and> gap_free (s2 # rest))"
| "gap_free [s] = True"
| "gap_free [] = True"

definition segment_x :: "real \<times> real \<times> real \<times> real \<Rightarrow> real \<times> real" where
  "segment_x inp = (case inp of (x_i, x_j, val_i, val_j) \<Rightarrow> (x_i, x_j))"

definition segment_xz ::
  "real \<times> real \<times> real \<times> real \<times> real \<times> real \<Rightarrow> (real \<times> real) \<times> (real \<times> real)" where
  "segment_xz inp = (case inp of (x1, z1, x2, z2, val1, val2) \<Rightarrow> ((x1, z1), (x2, z2)))"

definition broken_line :: "('a \<times> 'a) list \<Rightarrow> 'a option list" where
  "broken_line segs = concat (map (\<lambda>(a, b). [Some a, Some b, None]) segs)"

text \<open>
  Multiplying the z-coordinates of a figure by a factor, and erasing them: the two ways
  to say that a quantity of the figure does not depend on the depth expansion.
\<close>

definition expand_trace :: "real \<Rightarrow> trace3d \<Rightarrow> trace3d" where
  "expand_trace ze t = t\<lparr>t_z := map (map_option (\<lambda>z. z * ze)) (t_z t)\<rparr>"

definition expand_z :: "real \<Rightarrow> figure3d \<Rightarrow> figure3d" where
  "expand_z ze f = f\<lparr>traces3d := map (expand_trace ze) (traces3d f)\<rparr>"

definition erase_z :: "figure3d \<Rightarrow> figure3d" where
  "erase_z f = f\<lparr>traces3d := map (\<lambda>t. t\<lparr>t_z := []\<rparr>) (traces3d f)\<rparr>"

definition expand_inputs ::
  "real \<Rightarrow> real \<times> real \<times> real \<times> real \<times> real \<times> real \<Rightarrow> real \<times> real \<times> real \<times> real \<times> real \<times> real" where
  "expand_inputs ze inp = (case inp of (x1, z1, x2, z2, val1, val2) \<Rightarrow> (x1, z1 * ze, x2, z2 * ze, val1, val2))"

definition expand_polyline :: "real \<Rightarrow> polyline \<Rightarrow> polyline" where
  "expand_polyline ze p = p\<lparr>p_z := map (map_option (\<lambda>z. z * ze)) (p_z p)\<rparr>"

text \<open>
  What the specification expects of a stepped diagram: the start sample at both ends of
  each element and along all of its hatching.
\<close>

definition stepped_hatch :: "real \<times> real \<times> real \<times> real \<Rightarrow> shape list" where
  "stepped_hatch inp =
     (case inp of (x_i, x_j, val_i, val_j) \<Rightarrow>
        map (\<lambda>hx. \<lparr>sh_x0 = hx, sh_y0 = 0, sh_x1 = hx, sh_y1 = Some val_i\<rparr>) (linspace x_i x_j 12))"

definition stepped_path :: "(real \<times> real \<times> real \<times> real) list \<Rightarrow> real list" where
  "stepped_path inps = concat (map (\<lambda>(x_i, x_j, val_i, val_j). [val_i, val_i]) inps)"

definition stepped_outline :: "real \<Rightarrow> (real \<times> real) list \<Rightarrow> real option list" where
  "stepped_outline scale vs = concat (map (\<lambda>v. [Some (fst v * scale), Some (fst v * scale), None]) vs)"

definition stepped_fence :: "real \<Rightarrow> (real \<times> real) list \<Rightarrow> real option list" where
  "stepped_fence scale vs =
     concat (map (\<lambda>v. concat (replicate 11 [Some 0, Some (fst v * scale), None])) vs)"

definition stepped_outline_colors :: "(real \<times> real) list \<Rightarrow> real list" where
  "stepped_outline_colors vs = concat (map (\<lambda>v. [fst v, fst v, fst v]) vs)"

definition stepped_fence_colors :: "(real \<times> real) list \<Rightarrow> real list" where
  "stepped_fence_colors vs = concat (map (\<lambda>v. concat (replicate 11 [fst v, fst v, fst v])) vs)"

text \<open>
  Linear interpolation between the two samples of an element, as the specification
  writes it, and the fence of a linear diagram built from it.
\<close>

definition interpolate :: "real \<Rightarrow> real \<Rightarrow> real \<Rightarrow> real" where
  "interpolate value_start value_end f = value_start + f * (value_end - value_start)"



text \<open>
  The hatch line number \<open>k\<close> of an element, in the 2D and in the 3D figure, written
  with the interpolation of the specification; and the number of lines of a fence, each
  line ending with a break.
\<close>

definition fence_lines :: "polyline \<Rightarrow> nat" where
  "fence_lines p = length (filter (\<lambda>v. v = None) (p_x p))"

definition hatch_sample :: "bool \<Rightarrow> real \<Rightarrow> real \<Rightarrow> real \<Rightarrow> real \<Rightarrow> nat \<Rightarrow> shape" where
  "hatch_sample is_step x_i x_j val_i val_j k =
     \<lparr>sh_x0 = x_i + real k * ((x_j - x_i) / 11), sh_y0 = 0,
      sh_x1 = x_i + real k * ((x_j - x_i) / 11),
      sh_y1 = (if is_step then Some val_i
               else if x_i = x_j then None
               else Some (interpolate val_i val_j (real k / 11)))\<rparr>"

definition fence_sample ::
  "string \<Rightarrow> real \<Rightarrow> real \<Rightarrow> real \<Rightarrow> real \<Rightarrow> real \<Rightarrow> real \<Rightarrow> real \<Rightarrow> nat \<Rightarrow> polyline" where
  "fence_sample dtype scale x1 z1 x2 z2 val1 val2 k =
     \<lparr>p_x = [Some (interpolate x1 x2 (real k / 10)), Some (interpolate x1 x2 (real k / 10)), None],
      p_y = [Some 0, Some (interpolate val1 (end_value dtype (val1, val2)) (real k / 10) * scale), None],
      p_z = [Some (interpolate z1 z2 (real k / 10)), Some (interpolate z1 z2 (real k / 10)), None],
      p_c = replicate 3 (interpolate val1 (end_value dtype (val1, val2)) (real k / 10))\<rparr>"

section \<open>Example data\<close>

text \<open>
  A small structure for the worked examples: two girders of two elements each, with
  shear and moment samples. Element 4 joins two nodes with the same x-coordinate.
\<close>

definition demo_nodes :: node_table where
  "demo_nodes = [1 \<mapsto> (0, 0, 0), 2 \<mapsto> (4, 0, 0), 3 \<mapsto> (6, 0, 0),
                 4 \<mapsto> (0, 0, 2), 5 \<mapsto> (4, 0, 2), 6 \<mapsto> (4, 0, 3)]"

definition demo_members :: member_table where
  "demo_members = [1 \<mapsto> (1, 2), 2 \<mapsto> (2, 3), 3 \<mapsto> (4, 5), 4 \<mapsto> (5, 6)]"

definition demo_ds :: dataset where
  "demo_ds =
     [(1, ''Mz_i'') \<mapsto> 10, (1, ''Mz_j'') \<mapsto> - 5, (1, ''Vy_i'') \<mapsto> 10, (1, ''Vy_j'') \<mapsto> 10,
      (2, ''Mz_i'') \<mapsto> - 5, (2, ''Mz_j'') \<mapsto> - 1, (2, ''Vy_i'') \<mapsto> - 4, (2, ''Vy_j'') \<mapsto> - 4,
      (3, ''Mz_i'') \<mapsto> 2, (3, ''Mz_j'') \<mapsto> 3, (3, ''Vy_i'') \<mapsto> 1, (3, ''Vy_j'') \<mapsto> 7,
      (4, ''Mz_i'') \<mapsto> 1, (4, ''Mz_j'') \<mapsto> 2, (4, ''Vy_i'') \<mapsto> 1, (4, ''Vy_j'') \<mapsto> 1]"

definition demo_girders :: "(string \<times> girder) list" where
  "demo_girders =
     [(''Girder 1'', \<lparr>g_elements = [1, 2], g_nodes = [1, 2, 3]\<rparr>),
      (''Girder 2'', \<lparr>g_elements = [3, 4], g_nodes = [4, 5, 6]\<rparr>)]"

section \<open>Auxiliary facts\<close>

subsection \<open>Sequencing\<close>

lemma and_then_Inl: "and_then (Inl e) f = Inl e"
  by (simp add: and_then_def)

lemma and_then_Inr: "and_then (Inr a) f = f a"
  by (simp add: and_then_def)

lemma and_then_eq_Inr: "and_then r f = Inr b \<longleftrightarrow> (\<exists>a. r = Inr a \<and> f a = Inr b)"
  by (cases r) (simp_all add: and_then_def)

lemma and_then_eq_Inl: "and_then r f = Inl e \<longleftrightarrow> (r = Inl e \<or> (\<exists>a. r = Inr a \<and> f a = Inl e))"
  by (cases r) (simp_all add: and_then_def)

lemma collect_Inr:
  "collect read xs = Inr vs \<longleftrightarrow> list_all2 (\<lambda>x v. read x = Inr v) xs vs"
proof (induction xs arbitrary: vs)
  case Nil
  show ?case by auto
next
  case (Cons x xs)
  show ?case
    by (cases vs) (auto simp: and_then_eq_Inr Cons.IH)
qed

lemma collect_Inl:
  assumes "collect read xs = Inl e"
  shows "\<exists>x \<in> set xs. read x = Inl e"
  using assms
proof (induction xs)
  case Nil
  then show ?case by simp
next
  case (Cons x xs)
  then show ?case
    by (cases "read x"; cases "collect read xs") (auto simp: and_then_def)
qed

lemma collect_fails:
  assumes "x \<in> set xs" and "read x = Inl e"
  shows "\<exists>e'. collect read xs = Inl e'"
proof (cases "collect read xs")
  case (Inl e')
  then show ?thesis by blast
next
  case (Inr vs)
  then have "list_all2 (\<lambda>x v. read x = Inr v) xs vs" by (simp add: collect_Inr)
  with assms(1) obtain v where "read x = Inr v"
    by (auto simp: list_all2_conv_all_nth in_set_conv_nth)
  with assms(2) show ?thesis by simp
qed

lemma for_each_collect:
  assumes "\<And>x st. body x st = and_then (read x) (\<lambda>v. Inr (upd v st))"
  shows "for_each body xs st = and_then (collect read xs) (\<lambda>vs. Inr (fold upd vs st))"
proof (induction xs arbitrary: st)
  case Nil
  show ?case by (simp add: and_then_Inr)
next
  case (Cons x xs)
  show ?case
  proof (cases "read x")
    case (Inl e)
    then show ?thesis by (simp add: assms [of x st] and_then_Inl)
  next
    case (Inr v)
    then have "for_each body (x # xs) st = for_each body xs (upd v st)"
      by (simp add: assms [of x st] and_then_Inr)
    also have "\<dots> = and_then (collect read xs) (\<lambda>vs. Inr (fold upd vs (upd v st)))"
      by (rule Cons.IH)
    also have "\<dots> = and_then (collect read (x # xs)) (\<lambda>vs. Inr (fold upd vs st))"
      using Inr by (cases "collect read xs") (simp_all add: and_then_def)
    finally show ?thesis .
  qed
qed

subsection \<open>The element loop of the 2D diagram\<close>

lemma element_loop_collect:
  "for_each (element_step ds members nodes ci cj s) girder st =
     and_then (collect (element_inputs ds members nodes ci cj) girder)
       (\<lambda>inps. Inr (fold (element_update s) inps st))"
  by (rule for_each_collect) (simp add: element_step_def)

lemma x_path_fold:
  "x_full_path (fold (element_update s) inps st) =
     x_full_path st @ concat (map (\<lambda>(x_i, x_j, val_i, val_j). [x_i, x_j]) inps)"
  by (induction inps arbitrary: st) (auto simp: element_update_def Let_def)

lemma y_path_fold:
  "y_full_path (fold (element_update s) inps st) =
     y_full_path st @ concat (map (\<lambda>(x_i, x_j, val_i, val_j). [val_i, if s then val_i else val_j]) inps)"
  by (induction inps arbitrary: st) (auto simp: element_update_def Let_def)

lemma annotations_fold:
  "annotations (fig (fold (element_update s) inps st)) =
     annotations (fig st) @ concat (map (\<lambda>(x_i, x_j, val_i, val_j). zero_crossing s x_i x_j val_i val_j) inps)"
  by (induction inps arbitrary: st) (auto simp: element_update_def Let_def)

lemma shapes_fold:
  "shapes (fig (fold (element_update s) inps st)) =
     shapes (fig st) @ concat (map (\<lambda>(x_i, x_j, val_i, val_j).
        map (hatch_shape s x_i x_j val_i (if s then val_i else val_j)) (linspace x_i x_j hatch_density)) inps)"
  by (induction inps arbitrary: st) (auto simp: element_update_def Let_def)

lemma traces_fold:
  "traces (fig (fold (element_update s) inps st)) = traces (fig st)"
  by (induction inps arbitrary: st) (auto simp: element_update_def Let_def)


lemma finish_plot_Inr:
  "finish_plot title color unit st = Inr f \<Longrightarrow>
     \<exists>max_idx min_idx. argmax (y_full_path st) = Inr max_idx \<and> argmin (y_full_path st) = Inr min_idx \<and>
       shapes f = shapes (fig st) \<and>
       annotations f = annotations (fig st) @
          [extreme_annotation st unit max_idx ''MAX'', extreme_annotation st unit min_idx ''MIN''] \<and>
       traces f = traces (fig st) @
          [\<lparr>scatter_x = x_full_path st, scatter_y = y_full_path st,
            scatter_color = color, scatter_name = title\<rparr>]"
  by (auto simp: finish_plot_def Let_def and_then_eq_Inr)

lemma plot_girder_collect:
  "plot_girder ds members nodes girder ci cj title color unit s =
     and_then (collect (element_inputs ds members nodes ci cj) girder)
       (\<lambda>inps. finish_plot title color unit (fold (element_update s) inps initial_state))"
  by (cases "collect (element_inputs ds members nodes ci cj) girder")
     (simp_all add: plot_girder_def element_loop_collect and_then_def)

lemma plot_girder_Inr:
  "plot_girder ds members nodes girder ci cj title color unit s = Inr f \<Longrightarrow>
     \<exists>inps. collect (element_inputs ds members nodes ci cj) girder = Inr inps \<and>
       finish_plot title color unit (fold (element_update s) inps initial_state) = Inr f"
  by (auto simp: plot_girder_collect and_then_eq_Inr)

lemma zero_crossing_stepped: "zero_crossing True x_i x_j val_i val_j = []"
  by (simp add: zero_crossing_def)



lemma not_zero_label_extreme: "\<not> is_zero_label (extreme_annotation st unit idx label)"
  by (simp add: is_zero_label_def extreme_annotation_def)

lemma initial_fig: "annotations (fig initial_state) = []" "shapes (fig initial_state) = []"
  "traces (fig initial_state) = []" "x_full_path initial_state = []" "y_full_path initial_state = []"
  by (simp_all add: initial_state_def empty_figure_def)

lemma argmax_Inr: "ys \<noteq> [] \<Longrightarrow> \<exists>i. argmax ys = Inr i"
  by (cases ys) (simp_all add: argmax_def)

lemma argmin_Inr: "ys \<noteq> [] \<Longrightarrow> \<exists>i. argmin ys = Inr i"
  by (cases ys) (simp_all add: argmin_def)

lemma finish_plot_succeeds:
  assumes "y_full_path st \<noteq> []"
  shows "\<exists>f. finish_plot title color unit st = Inr f"
proof -
  from argmax_Inr [OF assms] obtain i where i: "argmax (y_full_path st) = Inr i" by blast
  from argmin_Inr [OF assms] obtain j where j: "argmin (y_full_path st) = Inr j" by blast
  show ?thesis by (simp add: finish_plot_def Let_def i j and_then_Inr)
qed

lemma plot_girder_succeeds:
  assumes "collect (element_inputs ds members nodes ci cj) girder = Inr inps"
    and "girder \<noteq> []"
  shows "\<exists>f. plot_girder ds members nodes girder ci cj title color unit s = Inr f"
proof -
  let ?st = "fold (element_update s) inps initial_state"
  from assms have "inps \<noteq> []" by (auto simp: collect_Inr)
  then obtain inp tl where "inps = inp # tl" by (cases inps) auto
  then have "y_full_path ?st \<noteq> []"
    unfolding y_path_fold by (cases inp) simp
  from finish_plot_succeeds [OF this] obtain f where "finish_plot title color unit ?st = Inr f"
    by blast
  then show ?thesis by (auto simp: plot_girder_collect assms(1) and_then_Inr)
qed



subsection \<open>Hatching, extrema\<close>

lemma length_linspace: "length (linspace a b n) = n"
  by (simp add: linspace_def)

lemma linspace_map:
  assumes "2 \<le> n"
  shows "linspace a b n = map (\<lambda>k. a + real k * ((b - a) / real (n - 1))) [0..<n]"
proof -
  let ?f = "\<lambda>k. a + real k * ((b - a) / real (n - 1))"
  have "?f (n - 1) = b" using assms by simp
  then have "(map ?f [0..<n]) ! (n - 1) = b" using assms by simp
  then have "(map ?f [0..<n])[n - 1 := b] = map ?f [0..<n]"
    by (metis list_update_id)
  then show ?thesis using assms by (simp add: linspace_def)
qed

lemma hatch_value_linear_defined:
  "x_i \<noteq> x_j \<Longrightarrow> hatch_value False x_i x_j vs ve hx = Some (vs + (ve - vs) * (hx - x_i) / (x_j - x_i))"
  by (simp add: hatch_value_def)

lemma hatch_value_linear_undefined:
  "hatch_value False x_i x_i vs ve hx = None"
  by (simp add: hatch_value_def)

lemma shapes_linear:
  "shapes (fig (fold (element_update False) inps initial_state)) = concat (map linear_hatch inps)"
proof -
  have "(\<lambda>(x_i, x_j, val_i, val_j).
        map (hatch_shape False x_i x_j val_i (if False then val_i else val_j)) (linspace x_i x_j hatch_density))
      = linear_hatch"
    by (auto simp: fun_eq_iff linear_hatch_def)
  then show ?thesis by (simp add: shapes_fold initial_fig)
qed

lemma argmax_scan_first:
  assumes "first_maximum pre best" and "pre ! best = bv" and "i = length pre"
  shows "first_maximum (pre @ ys) (argmax_scan best bv i ys)"
  using assms
proof (induction ys arbitrary: pre best bv i)
  case Nil
  then show ?case by simp
next
  case (Cons y ys)
  show ?case
  proof (cases "bv < y")
    case True
    have "first_maximum (pre @ [y]) i"
      using Cons.prems True
      by (auto simp: first_maximum_def list_all_iff nth_append)
    moreover have "(pre @ [y]) ! i = y" using Cons.prems by (simp add: nth_append)
    moreover have "Suc i = length (pre @ [y])" using Cons.prems by simp
    ultimately have "first_maximum ((pre @ [y]) @ ys) (argmax_scan i y (Suc i) ys)"
      by (rule Cons.IH)
    then show ?thesis using True by simp
  next
    case False
    have "first_maximum (pre @ [y]) best"
      using Cons.prems False
      by (auto simp: first_maximum_def list_all_iff nth_append)
    moreover have "(pre @ [y]) ! best = bv"
      using Cons.prems by (simp add: nth_append first_maximum_def)
    moreover have "Suc i = length (pre @ [y])" using Cons.prems by simp
    ultimately have "first_maximum ((pre @ [y]) @ ys) (argmax_scan best bv (Suc i) ys)"
      by (rule Cons.IH)
    then show ?thesis using False by simp
  qed
qed

lemma argmax_first: "argmax ys = Inr idx \<Longrightarrow> first_maximum ys idx"
proof (cases ys)
  case Nil
  assume "argmax ys = Inr idx"
  with Nil show ?thesis by (simp add: argmax_def)
next
  case (Cons y rest)
  assume "argmax ys = Inr idx"
  with Cons have idx: "idx = argmax_scan 0 y 1 rest" by (simp add: argmax_def)
  have "first_maximum ([y] @ rest) (argmax_scan 0 y 1 rest)"
    by (rule argmax_scan_first) (simp_all add: first_maximum_def)
  then show ?thesis using Cons idx by simp
qed

lemma argmin_scan_first:
  assumes "first_minimum pre best" and "pre ! best = bv" and "i = length pre"
  shows "first_minimum (pre @ ys) (argmin_scan best bv i ys)"
  using assms
proof (induction ys arbitrary: pre best bv i)
  case Nil
  then show ?case by simp
next
  case (Cons y ys)
  show ?case
  proof (cases "y < bv")
    case True
    have "first_minimum (pre @ [y]) i"
      using Cons.prems True
      by (auto simp: first_minimum_def list_all_iff nth_append)
    moreover have "(pre @ [y]) ! i = y" using Cons.prems by (simp add: nth_append)
    moreover have "Suc i = length (pre @ [y])" using Cons.prems by simp
    ultimately have "first_minimum ((pre @ [y]) @ ys) (argmin_scan i y (Suc i) ys)"
      by (rule Cons.IH)
    then show ?thesis using True by simp
  next
    case False
    have "first_minimum (pre @ [y]) best"
      using Cons.prems False
      by (auto simp: first_minimum_def list_all_iff nth_append)
    moreover have "(pre @ [y]) ! best = bv"
      using Cons.prems by (simp add: nth_append first_minimum_def)
    moreover have "Suc i = length (pre @ [y])" using Cons.prems by simp
    ultimately have "first_minimum ((pre @ [y]) @ ys) (argmin_scan best bv (Suc i) ys)"
      by (rule Cons.IH)
    then show ?thesis using False by simp
  qed
qed

lemma argmin_first: "argmin ys = Inr idx \<Longrightarrow> first_minimum ys idx"
proof (cases ys)
  case Nil
  assume "argmin ys = Inr idx"
  with Nil show ?thesis by (simp add: argmin_def)
next
  case (Cons y rest)
  assume "argmin ys = Inr idx"
  with Cons have idx: "idx = argmin_scan 0 y 1 rest" by (simp add: argmin_def)
  have "first_minimum ([y] @ rest) (argmin_scan 0 y 1 rest)"
    by (rule argmin_scan_first) (simp_all add: first_minimum_def)
  then show ?thesis using Cons idx by simp
qed

lemma length_profile: "length (profile_x inps) = 2 * length inps" "length (profile_y s inps) = 2 * length inps"
  by (induction inps) (auto simp: profile_x_def profile_y_def)


lemma linear_hatch_nonempty: "linear_hatch inp \<noteq> []"
proof -
  obtain x_i x_j val_i val_j where "inp = (x_i, x_j, val_i, val_j)" by (cases inp) auto
  then have "length (linear_hatch inp) = 12"
    by (simp add: linear_hatch_def length_linspace hatch_density_def)
  then show ?thesis by auto
qed

lemma demo_inputs_moment2:
  "element_inputs demo_ds demo_members demo_nodes ''Mz_i'' ''Mz_j'' 3 = Inr (0, 4, 2, 3)"
  "element_inputs demo_ds demo_members demo_nodes ''Mz_i'' ''Mz_j'' 4 = Inr (4, 4, 1, 2)"
  by (simp_all add: element_inputs_def and_then_def member_of_def node_of_def sel_def
        demo_ds_def demo_members_def demo_nodes_def)

lemma demo_inputs_shear:
  "element_inputs demo_ds demo_members demo_nodes ''Vy_i'' ''Vy_j'' 1 = Inr (0, 4, 10, 10)"
  "element_inputs demo_ds demo_members demo_nodes ''Vy_i'' ''Vy_j'' 2 = Inr (4, 6, - 4, - 4)"
  by (simp_all add: element_inputs_def and_then_def member_of_def node_of_def sel_def
        demo_ds_def demo_members_def demo_nodes_def)

lemma first_maximum_nth:
  "first_maximum ys idx \<longleftrightarrow>
     idx < length ys \<and> (\<forall>k < length ys. ys ! k \<le> ys ! idx) \<and> (\<forall>k < idx. ys ! k < ys ! idx)"
  by (auto simp: first_maximum_def list_all_length)

lemma first_minimum_nth:
  "first_minimum ys idx \<longleftrightarrow>
     idx < length ys \<and> (\<forall>k < length ys. ys ! idx \<le> ys ! k) \<and> (\<forall>k < idx. ys ! idx < ys ! k)"
  by (auto simp: first_minimum_def list_all_length)

lemma first_maximum_unique: "first_maximum ys i \<Longrightarrow> first_maximum ys j \<Longrightarrow> i = j"
  unfolding first_maximum_nth by (metis linorder_neqE_nat not_less)

lemma first_minimum_unique: "first_minimum ys i \<Longrightarrow> first_minimum ys j \<Longrightarrow> i = j"
  unfolding first_minimum_nth by (metis linorder_neqE_nat not_less)


subsection \<open>The loops of the 3D diagram\<close>

lemma sample_elements_collect:
  "for_each (sample_step ds ci cj) elems acc =
     and_then (collect (sample_pair ds ci cj) elems) (\<lambda>vs. Inr (acc @ pair_list vs))"
proof -
  have "for_each (sample_step ds ci cj) elems acc =
     and_then (collect (sample_pair ds ci cj) elems)
       (\<lambda>vs. Inr (fold (\<lambda>(v_i, v_j) acc. acc @ [v_i, v_j]) vs acc))"
    by (rule for_each_collect)
       (auto simp: sample_step_def sample_pair_def and_then_def split: sum.splits)
  moreover have "fold (\<lambda>(v_i, v_j) acc. acc @ [v_i, v_j]) vs acc = acc @ pair_list vs" for vs
    by (induction vs arbitrary: acc) (auto simp: pair_list_def)
  ultimately show ?thesis by simp
qed

lemma sample_girders_collect:
  "sample_girders ds ci cj girders =
     and_then (collect (girder_samples ds ci cj) girders) (\<lambda>vss. Inr (concat (map pair_list vss)))"
proof -
  have "for_each (\<lambda>g_data. for_each (sample_step ds ci cj) (g_elements (snd g_data))) girders [] =
     and_then (collect (girder_samples ds ci cj) girders)
       (\<lambda>vss. Inr (fold (\<lambda>vs acc. acc @ pair_list vs) vss []))"
    by (rule for_each_collect) (simp add: sample_elements_collect girder_samples_def)
  moreover have "fold (\<lambda>vs acc. acc @ pair_list vs) vss acc = acc @ concat (map pair_list vss)" for vss acc
    by (induction vss arbitrary: acc) auto
  ultimately show ?thesis by (simp add: sample_girders_def)
qed

lemma py_max_Max: "xs \<noteq> [] \<Longrightarrow> py_max xs = Inr (Max (set xs))"
  by (cases xs) (simp_all add: py_max_def Max.set_eq_fold [symmetric])

lemma py_min_Min: "xs \<noteq> [] \<Longrightarrow> py_min xs = Inr (Min (set xs))"
  by (cases xs) (simp_all add: py_min_def Min.set_eq_fold [symmetric])

lemma global_scaling_Inr:
  assumes "global_scaling fs = Inr sc"
  shows "fs \<noteq> []" and "max_abs_val sc = Max (set (map abs fs))" and "max_abs_val sc \<noteq> 0"
    and "HEIGHT_SCALE sc = 5 / Max (set (map abs fs))"
    and "C_MIN sc = Min (set fs)" and "C_MAX sc = Max (set fs)"
proof -
  show ne: "fs \<noteq> []"
    using assms by (auto simp: global_scaling_def Let_def and_then_def py_min_def split: sum.splits if_splits)
  then have m: "py_max (map abs fs) = Inr (Max (set (map abs fs)))"
    by (intro py_max_Max) simp
  have a: "and_then (py_div TARGET_HEIGHT (Max (set (map abs fs)))) (\<lambda>h.
         and_then (py_min fs) (\<lambda>lo.
         and_then (py_max fs) (\<lambda>hi.
         Inr \<lparr>max_abs_val = Max (set (map abs fs)), HEIGHT_SCALE = h, C_MIN = lo, C_MAX = hi\<rparr>))) = Inr sc"
    using assms ne m by (simp add: global_scaling_def Let_def and_then_Inr)
  then show nz: "max_abs_val sc \<noteq> 0"
    by (auto simp: and_then_eq_Inr py_div_def split: if_splits)
  from a show "max_abs_val sc = Max (set (map abs fs))"
    by (auto simp: and_then_eq_Inr)
  from a show "HEIGHT_SCALE sc = 5 / Max (set (map abs fs))"
    by (auto simp: and_then_eq_Inr py_div_def TARGET_HEIGHT_def split: if_splits)
  from a ne show "C_MIN sc = Min (set fs)"
    by (auto simp: and_then_eq_Inr py_min_Min)
  from a ne show "C_MAX sc = Max (set fs)"
    by (auto simp: and_then_eq_Inr py_max_Max)
qed

lemma global_scaling_succeeds:
  assumes "fs \<noteq> []" and "Max (set (map abs fs)) \<noteq> 0"
  shows "\<exists>sc. global_scaling fs = Inr sc"
  using assms
  by (simp add: global_scaling_def Let_def py_max_Max py_min_Min py_div_def and_then_Inr)

lemma extend_empty: "extend_polyline empty_polyline p = p" "extend_polyline p empty_polyline = p"
  by (simp_all add: extend_polyline_def empty_polyline_def)

lemma extend_assoc: "extend_polyline (extend_polyline p q) r = extend_polyline p (extend_polyline q r)"
  by (simp add: extend_polyline_def)

lemma join_simps: "join_polylines [] = empty_polyline"
  "join_polylines (p # ps) = extend_polyline p (join_polylines ps)"
  by (simp_all add: join_polylines_def empty_polyline_def extend_polyline_def)

lemma fold_extend:
  "fold (\<lambda>x acc. extend_polyline acc (g x)) xs acc = extend_polyline acc (join_polylines (map g xs))"
  by (induction xs arbitrary: acc) (simp_all add: join_simps extend_empty extend_assoc)

lemma hatch_piece_join:
  "hatch_piece x1 z1 x2 z2 hc = join_polylines (map (hatch_line x1 z1 x2 z2 hc) [0..<num_lines + 1])"
  unfolding hatch_piece_def fold_extend by (simp add: extend_empty)

lemma element_update3d_pieces:
  "element_update3d dtype scale inp st =
     (extend_polyline (fst st) (fst (element_pieces dtype scale inp)),
      extend_polyline (snd st) (snd (element_pieces dtype scale inp)))"
  by (cases inp) (simp add: element_update3d_def element_pieces_def Let_def)

lemma fold_element_update3d:
  "fold (element_update3d dtype scale) inps st =
     (extend_polyline (fst st) (join_polylines (map (fst \<circ> element_pieces dtype scale) inps)),
      extend_polyline (snd st) (join_polylines (map (snd \<circ> element_pieces dtype scale) inps)))"
  by (induction inps arbitrary: st)
     (simp_all add: join_simps extend_empty extend_assoc element_update3d_pieces)

lemma element_loop3d_collect:
  "for_each (element_step3d ds members nodes ze ci cj dtype scale) elems st =
     and_then (collect (element_inputs3d ds members nodes ze ci cj) elems)
       (\<lambda>inps. Inr (fold (element_update3d dtype scale) inps st))"
  by (rule for_each_collect) (simp add: element_step3d_def)

lemma fold_baseline:
  "fold (\<lambda>(x, y, z) b. b\<lparr>p_x := p_x b @ [Some x], p_y := p_y b @ [Some 0], p_z := p_z b @ [Some (z * ze)]\<rparr>) cs b
     = extend_polyline b (axis_line ze cs)"
proof (induction cs arbitrary: b)
  case Nil
  show ?case by (simp add: axis_line_def extend_polyline_def)
next
  case (Cons c cs)
  show ?case
    by (cases c) (simp add: Cons.IH axis_line_def extend_polyline_def)
qed

lemma baseline_collect:
  "for_each (baseline_step nodes ze) ns b =
     and_then (collect (node_of nodes) ns) (\<lambda>cs. Inr (extend_polyline b (axis_line ze cs)))"
proof -
  have "for_each (baseline_step nodes ze) ns b =
     and_then (collect (node_of nodes) ns) (\<lambda>cs. Inr (fold
       (\<lambda>(x, y, z) b. b\<lparr>p_x := p_x b @ [Some x], p_y := p_y b @ [Some 0], p_z := p_z b @ [Some (z * ze)]\<rparr>) cs b))"
    by (rule for_each_collect)
       (auto simp: baseline_step_def and_then_def split: sum.splits)
  then show ?thesis by (simp add: fold_baseline)
qed

lemma girder_traces_collect:
  "girder_traces ds members nodes ze ci cj sc g =
     and_then (collect (node_of nodes) (g_nodes (snd g))) (\<lambda>cs.
     and_then (collect (element_inputs3d ds members nodes ze ci cj) (g_elements (snd g))) (\<lambda>inps.
     Inr (girder_traces_of (diagram_type ci) sc (fst g) (axis_line ze cs) inps)))"
  by (cases "collect (node_of nodes) (g_nodes (snd g))";
      cases "collect (element_inputs3d ds members nodes ze ci cj) (g_elements (snd g))")
     (simp_all add: girder_traces_def baseline_collect element_loop3d_collect and_then_def
        fold_element_update3d extend_empty girder_traces_of_def)

lemma girder_loop_collect:
  "for_each (girder_step ds members nodes ze ci cj sc) girders ts =
     and_then (collect (girder_traces ds members nodes ze ci cj sc) girders)
       (\<lambda>tss. Inr (ts @ concat tss))"
proof -
  have "for_each (girder_step ds members nodes ze ci cj sc) girders ts =
     and_then (collect (girder_traces ds members nodes ze ci cj sc) girders)
       (\<lambda>tss. Inr (fold (\<lambda>new ts. ts @ new) tss ts))"
    by (rule for_each_collect) (simp add: girder_step_def)
  moreover have "fold (\<lambda>new ts. ts @ new) tss ts = ts @ concat tss" for tss :: "trace3d list list"
    by (induction tss arbitrary: ts) auto
  ultimately show ?thesis by simp
qed

lemma plot_girders_collect:
  "plot_girders ds members nodes girders ze ci cj title =
     and_then (collect (girder_samples ds ci cj) girders) (\<lambda>vss.
     and_then (global_scaling (concat (map pair_list vss))) (\<lambda>sc.
     and_then (collect (girder_traces ds members nodes ze ci cj sc) girders) (\<lambda>tss.
     Inr \<lparr>traces3d = concat tss, title3d = title\<rparr>)))"
  by (simp add: plot_girders_def sample_girders_collect girder_loop_collect and_then_def
        split: sum.splits)

lemma plot_girders_Inr:
  assumes "plot_girders ds members nodes girders ze ci cj title = Inr f"
  shows "\<exists>vss sc tss. collect (girder_samples ds ci cj) girders = Inr vss \<and>
           global_scaling (concat (map pair_list vss)) = Inr sc \<and>
           collect (girder_traces ds members nodes ze ci cj sc) girders = Inr tss \<and>
           f = \<lparr>traces3d = concat tss, title3d = title\<rparr>"
  using assms by (auto simp: plot_girders_collect and_then_eq_Inr)


subsection \<open>Heights of the 3D diagram, the example girders\<close>

lemma element_inputs3d_samples:
  assumes "element_inputs3d ds members nodes ze ci cj eid = Inr inp"
  shows "sample_pair ds ci cj eid = Inr (samples_of inp)"
  using assms
  by (auto simp: element_inputs3d_def sample_pair_def and_then_eq_Inr samples_of_def)

lemma collect_inputs3d_samples:
  assumes "collect (element_inputs3d ds members nodes ze ci cj) elems = Inr inps"
  shows "collect (sample_pair ds ci cj) elems = Inr (map samples_of inps)"
proof -
  from assms have "list_all2 (\<lambda>eid inp. element_inputs3d ds members nodes ze ci cj eid = Inr inp) elems inps"
    by (simp add: collect_Inr)
  then have "list_all2 (\<lambda>eid v. sample_pair ds ci cj eid = Inr v) elems (map samples_of inps)"
    by (induction rule: list_all2_induct) (auto dest: element_inputs3d_samples)
  then show ?thesis by (simp add: collect_Inr)
qed

lemma p_y_join: "p_y (join_polylines ps) = concat (map p_y ps)"
  and p_x_join: "p_x (join_polylines ps) = concat (map p_x ps)"
  and p_z_join: "p_z (join_polylines ps) = concat (map p_z ps)"
  and p_c_join: "p_c (join_polylines ps) = concat (map p_c ps)"
  by (simp_all add: join_polylines_def)

lemma outline_heights:
  "p_y (fst (element_pieces dtype scale inp)) =
     [Some (fst (samples_of inp) * scale), Some (end_value dtype (samples_of inp) * scale), None]"
  by (cases inp)
     (simp add: element_pieces_def outline_piece_def element_heights_def samples_of_def end_value_def)

lemma fence_heights:
  "p_y (snd (element_pieces dtype scale inp)) =
     concat (map (\<lambda>k.
        [Some 0,
         Some (fst (samples_of inp) * scale +
               (end_value dtype (samples_of inp) * scale - fst (samples_of inp) * scale) * (real k / 10)),
         None]) [0..<11])"
  by (cases inp)
     (simp add: element_pieces_def hatch_piece_join p_y_join hatch_line_def element_heights_def
        samples_of_def end_value_def num_lines_def Let_def comp_def)

lemma outline_of_samples:
  "p_y (join_polylines (map (fst \<circ> element_pieces dtype scale) inps)) =
     scaled_outline dtype scale (map samples_of inps)"
  by (simp add: p_y_join scaled_outline_def comp_def outline_heights)

lemma fence_of_samples:
  "p_y (join_polylines (map (snd \<circ> element_pieces dtype scale) inps)) =
     scaled_fence dtype scale (map samples_of inps)"
  by (simp add: p_y_join scaled_fence_def comp_def fence_heights)

lemma girder_traces_Inr:
  assumes "girder_traces ds members nodes ze ci cj sc g = Inr ts"
  shows "\<exists>cs inps. collect (node_of nodes) (g_nodes (snd g)) = Inr cs \<and>
           collect (element_inputs3d ds members nodes ze ci cj) (g_elements (snd g)) = Inr inps \<and>
           ts = girder_traces_of (diagram_type ci) sc (fst g) (axis_line ze cs) inps"
  using assms by (auto simp: girder_traces_collect and_then_eq_Inr)

lemma demo_samples_moment:
  "collect (girder_samples demo_ds ''Mz_i'' ''Mz_j'') demo_girders
     = Inr [[(10, - 5), (- 5, - 1)], [(2, 3), (1, 2)]]"
  by (simp add: girder_samples_def demo_girders_def sample_pair_def sel_def demo_ds_def and_then_def)

lemma demo_samples_shear:
  "collect (girder_samples demo_ds ''Vy_i'' ''Vy_j'') demo_girders
     = Inr [[(10, 10), (- 4, - 4)], [(1, 7), (1, 1)]]"
  by (simp add: girder_samples_def demo_girders_def sample_pair_def sel_def demo_ds_def and_then_def)

lemma demo_nodes_collect:
  "collect (node_of demo_nodes) [1, 2, 3] = Inr [(0, 0, 0), (4, 0, 0), (6, 0, 0)]"
  "collect (node_of demo_nodes) [4, 5, 6] = Inr [(0, 0, 2), (4, 0, 2), (4, 0, 3)]"
  by (simp_all add: node_of_def demo_nodes_def and_then_def)

lemma demo_inputs3d_moment:
  "collect (element_inputs3d demo_ds demo_members demo_nodes ze ''Mz_i'' ''Mz_j'') [1, 2]
     = Inr [(0, 0 * ze, 4, 0 * ze, 10, - 5), (4, 0 * ze, 6, 0 * ze, - 5, - 1)]"
  "collect (element_inputs3d demo_ds demo_members demo_nodes ze ''Mz_i'' ''Mz_j'') [3, 4]
     = Inr [(0, 2 * ze, 4, 2 * ze, 2, 3), (4, 2 * ze, 4, 3 * ze, 1, 2)]"
  by (simp_all add: element_inputs3d_def member_of_def node_of_def sel_def and_then_def
        demo_ds_def demo_members_def demo_nodes_def)

lemma demo_inputs3d_shear:
  "collect (element_inputs3d demo_ds demo_members demo_nodes ze ''Vy_i'' ''Vy_j'') [1, 2]
     = Inr [(0, 0 * ze, 4, 0 * ze, 10, 10), (4, 0 * ze, 6, 0 * ze, - 4, - 4)]"
  "collect (element_inputs3d demo_ds demo_members demo_nodes ze ''Vy_i'' ''Vy_j'') [3, 4]
     = Inr [(0, 2 * ze, 4, 2 * ze, 1, 7), (4, 2 * ze, 4, 3 * ze, 1, 1)]"
  by (simp_all add: element_inputs3d_def member_of_def node_of_def sel_def and_then_def
        demo_ds_def demo_members_def demo_nodes_def)

lemma demo_scaling_moment:
  "global_scaling (concat (map pair_list [[(10, - 5), (- 5, - 1)], [(2, 3), (1, 2)]]))
     = Inr \<lparr>max_abs_val = 10, HEIGHT_SCALE = 1 / 2, C_MIN = - 5, C_MAX = 10\<rparr>"
  by (simp add: global_scaling_def pair_list_def py_max_def py_min_def py_div_def
        TARGET_HEIGHT_def and_then_def Let_def)

lemma demo_scaling_shear:
  "global_scaling (concat (map pair_list [[(10, 10), (- 4, - 4)], [(1, 7), (1, 1)]]))
     = Inr \<lparr>max_abs_val = 10, HEIGHT_SCALE = 1 / 2, C_MIN = - 4, C_MAX = 10\<rparr>"
  by (simp add: global_scaling_def pair_list_def py_max_def py_min_def py_div_def
        TARGET_HEIGHT_def and_then_def Let_def)

lemma diagram_type_demo: "diagram_type ''Vy_i'' = ''SFD''" "diagram_type ''Mz_i'' = ''BMD''"
  by (simp_all add: diagram_type_def)

lemma demo_girder_traces_moment:
  "\<exists>ts. girder_traces demo_ds demo_members demo_nodes ze ''Mz_i'' ''Mz_j'' sc
      (''Girder 1'', \<lparr>g_elements = [1, 2], g_nodes = [1, 2, 3]\<rparr>) = Inr ts"
  "\<exists>ts. girder_traces demo_ds demo_members demo_nodes ze ''Mz_i'' ''Mz_j'' sc
      (''Girder 2'', \<lparr>g_elements = [3, 4], g_nodes = [4, 5, 6]\<rparr>) = Inr ts"
  by (simp_all add: girder_traces_collect demo_nodes_collect demo_inputs3d_moment and_then_Inr
        del: collect.simps)

lemma demo_girder_traces_shear:
  "\<exists>ts. girder_traces demo_ds demo_members demo_nodes ze ''Vy_i'' ''Vy_j'' sc
      (''Girder 1'', \<lparr>g_elements = [1, 2], g_nodes = [1, 2, 3]\<rparr>) = Inr ts"
  "\<exists>ts. girder_traces demo_ds demo_members demo_nodes ze ''Vy_i'' ''Vy_j'' sc
      (''Girder 2'', \<lparr>g_elements = [3, 4], g_nodes = [4, 5, 6]\<rparr>) = Inr ts"
  by (simp_all add: girder_traces_collect demo_nodes_collect demo_inputs3d_shear and_then_Inr
        del: collect.simps)

lemma demo_plot_moment:
  "\<exists>f. plot_girders demo_ds demo_members demo_nodes demo_girders ze ''Mz_i'' ''Mz_j'' title = Inr f"
proof -
  let ?sc = "\<lparr>max_abs_val = 10, HEIGHT_SCALE = 1 / 2, C_MIN = - 5, C_MAX = 10\<rparr>"
  from demo_girder_traces_moment [of ze ?sc] obtain t1 t2 where
    "girder_traces demo_ds demo_members demo_nodes ze ''Mz_i'' ''Mz_j'' ?sc
      (''Girder 1'', \<lparr>g_elements = [1, 2], g_nodes = [1, 2, 3]\<rparr>) = Inr t1"
    "girder_traces demo_ds demo_members demo_nodes ze ''Mz_i'' ''Mz_j'' ?sc
      (''Girder 2'', \<lparr>g_elements = [3, 4], g_nodes = [4, 5, 6]\<rparr>) = Inr t2"
    by blast
  then have "collect (girder_traces demo_ds demo_members demo_nodes ze ''Mz_i'' ''Mz_j'' ?sc) demo_girders
      = Inr [t1, t2]"
    by (simp add: demo_girders_def and_then_Inr)
  then show ?thesis
    unfolding plot_girders_collect demo_samples_moment and_then_Inr demo_scaling_moment
    by (simp add: and_then_Inr)
qed

lemma demo_plot_shear:
  "\<exists>f. plot_girders demo_ds demo_members demo_nodes demo_girders ze ''Vy_i'' ''Vy_j'' title = Inr f"
proof -
  let ?sc = "\<lparr>max_abs_val = 10, HEIGHT_SCALE = 1 / 2, C_MIN = - 4, C_MAX = 10\<rparr>"
  from demo_girder_traces_shear [of ze ?sc] obtain t1 t2 where
    "girder_traces demo_ds demo_members demo_nodes ze ''Vy_i'' ''Vy_j'' ?sc
      (''Girder 1'', \<lparr>g_elements = [1, 2], g_nodes = [1, 2, 3]\<rparr>) = Inr t1"
    "girder_traces demo_ds demo_members demo_nodes ze ''Vy_i'' ''Vy_j'' ?sc
      (''Girder 2'', \<lparr>g_elements = [3, 4], g_nodes = [4, 5, 6]\<rparr>) = Inr t2"
    by blast
  then have "collect (girder_traces demo_ds demo_members demo_nodes ze ''Vy_i'' ''Vy_j'' ?sc) demo_girders
      = Inr [t1, t2]"
    by (simp add: demo_girders_def and_then_Inr)
  then show ?thesis
    unfolding plot_girders_collect demo_samples_shear and_then_Inr demo_scaling_shear
    by (simp add: and_then_Inr)
qed

lemma list_of_two: "length xs = 2 \<Longrightarrow> xs = [xs ! 0, xs ! Suc 0]"
  by (cases xs; cases "tl xs") auto


subsection \<open>Missing data\<close>

lemma element_inputs_error:
  "element_inputs ds members nodes ci cj eid = Inl e \<Longrightarrow> \<exists>origin. e = KeyError origin"
  by (auto simp: element_inputs_def and_then_def member_of_def node_of_def sel_def
        split: option.splits sum.splits prod.splits)

lemma element_inputs_error_dataset:
  "element_inputs ds members nodes ci cj eid = Inl e \<Longrightarrow> topology_resolves members nodes eid
     \<Longrightarrow> e = KeyError Dataset"
  by (auto simp: element_inputs_def and_then_def member_of_def node_of_def sel_def
        topology_resolves_def split: option.splits sum.splits prod.splits)

lemma element_inputs_missing:
  "ds (eid, ci) = None \<or> ds (eid, cj) = None \<Longrightarrow> \<exists>e. element_inputs ds members nodes ci cj eid = Inl e"
  by (auto simp: element_inputs_def and_then_def member_of_def node_of_def sel_def
        split: option.splits sum.splits prod.splits)

lemma sample_pair_error:
  "sample_pair ds ci cj eid = Inl e \<Longrightarrow> e = KeyError Dataset"
  by (auto simp: sample_pair_def and_then_def sel_def split: option.splits sum.splits)

lemma sample_pair_missing:
  "ds (eid, ci) = None \<or> ds (eid, cj) = None \<Longrightarrow> sample_pair ds ci cj eid = Inl (KeyError Dataset)"
  by (auto simp: sample_pair_def and_then_def sel_def split: option.splits sum.splits)

lemma plot_girder_missing:
  assumes "eid \<in> set girder" and "ds (eid, ci) = None \<or> ds (eid, cj) = None"
  shows "\<exists>origin. plot_girder ds members nodes girder ci cj title color unit is_step = Inl (KeyError origin)"
proof -
  from element_inputs_missing [OF assms(2)] obtain e0 where
    "element_inputs ds members nodes ci cj eid = Inl e0" by blast
  from collect_fails [where read = "element_inputs ds members nodes ci cj", OF assms(1) this]
  obtain e where e: "collect (element_inputs ds members nodes ci cj) girder = Inl e" by blast
  from collect_Inl [OF e] obtain x where "element_inputs ds members nodes ci cj x = Inl e" by blast
  from element_inputs_error [OF this] obtain origin where "e = KeyError origin" by blast
  with e show ?thesis by (simp add: plot_girder_collect and_then_Inl)
qed

lemma plot_girder_missing_dataset:
  assumes "eid \<in> set girder" and "ds (eid, ci) = None \<or> ds (eid, cj) = None"
    and "list_all (topology_resolves members nodes) girder"
  shows "plot_girder ds members nodes girder ci cj title color unit is_step = Inl (KeyError Dataset)"
proof -
  from element_inputs_missing [OF assms(2)] obtain e0 where
    "element_inputs ds members nodes ci cj eid = Inl e0" by blast
  from collect_fails [where read = "element_inputs ds members nodes ci cj", OF assms(1) this]
  obtain e where e: "collect (element_inputs ds members nodes ci cj) girder = Inl e" by blast
  from collect_Inl [OF e] obtain x where x: "x \<in> set girder"
    and xe: "element_inputs ds members nodes ci cj x = Inl e" by blast
  from x assms(3) have "topology_resolves members nodes x" by (simp add: list_all_iff)
  with xe have "e = KeyError Dataset" by (rule element_inputs_error_dataset)
  with e show ?thesis by (simp add: plot_girder_collect and_then_Inl)
qed

lemma plot_girders_missing:
  assumes "g \<in> set girders" and "eid \<in> set (g_elements (snd g))"
    and "ds (eid, ci) = None \<or> ds (eid, cj) = None"
  shows "plot_girders ds members nodes girders ze ci cj title = Inl (KeyError Dataset)"
proof -
  from collect_fails [where read = "sample_pair ds ci cj", OF assms(2) sample_pair_missing [OF assms(3)]]
  obtain e0 where "girder_samples ds ci cj g = Inl e0" by (auto simp: girder_samples_def)
  from collect_fails [where read = "girder_samples ds ci cj", OF assms(1) this]
  obtain e where e: "collect (girder_samples ds ci cj) girders = Inl e" by blast
  from collect_Inl [OF e] obtain g' :: "string \<times> girder"
    where "collect (sample_pair ds ci cj) (g_elements (snd g')) = Inl e"
    unfolding girder_samples_def by blast
  from collect_Inl [OF this] obtain x where "sample_pair ds ci cj x = Inl e" by blast
  then have "e = KeyError Dataset" by (rule sample_pair_error)
  with e show ?thesis by (simp add: plot_girders_collect and_then_Inl)
qed


subsection \<open>Contiguous girders\<close>

lemma element_inputs_Inr:
  assumes "element_inputs ds members nodes ci cj eid = Inr (x_i, x_j, val_i, val_j)"
  shows "\<exists>sn en y1 z1 y2 z2. members eid = Some (sn, en) \<and>
           nodes sn = Some (x_i, y1, z1) \<and> nodes en = Some (x_j, y2, z2) \<and>
           ds (eid, ci) = Some val_i \<and> ds (eid, cj) = Some val_j"
  using assms
  by (auto simp: element_inputs_def and_then_eq_Inr member_of_def node_of_def sel_def
        split: option.splits)

lemma element_inputs3d_Inr:
  assumes "element_inputs3d ds members nodes ze ci cj eid = Inr (x1, z1, x2, z2, val1, val2)"
  shows "\<exists>sn en y1 y2 w1 w2. members eid = Some (sn, en) \<and>
           nodes sn = Some (x1, y1, w1) \<and> nodes en = Some (x2, y2, w2) \<and>
           z1 = w1 * ze \<and> z2 = w2 * ze \<and>
           ds (eid, ci) = Some val1 \<and> ds (eid, cj) = Some val2"
  using assms
  by (auto simp: element_inputs3d_def and_then_eq_Inr member_of_def node_of_def sel_def
        split: option.splits)

lemma contiguous_continuous:
  assumes "list_all2 (\<lambda>eid inp. element_inputs ds members nodes ci cj eid = Inr inp) girder inps"
    and "contiguous members girder"
  shows "gap_free (map segment_x inps)"
  using assms
proof (induction girder inps rule: list_all2_induct)
  case Nil
  show ?case by simp
next
  case (Cons e1 rest inp1 inps)
  show ?case
  proof (cases rest)
    case Nil
    with Cons.hyps show ?thesis by simp
  next
    case rest: (Cons e2 rest')
    with Cons.hyps obtain inp2 inps' where inps: "inps = inp2 # inps'"
      and i2: "element_inputs ds members nodes ci cj e2 = Inr inp2"
      by (auto simp: list_all2_Cons1)
    from Cons.prems rest have c: "contiguous members rest" by simp
    obtain a b v w where inp1: "inp1 = (a, b, v, w)" by (cases inp1) auto
    obtain a' b' v' w' where inp2: "inp2 = (a', b', v', w')" by (cases inp2) auto
    from element_inputs_Inr [OF Cons.hyps(1) [unfolded inp1]]
      element_inputs_Inr [OF i2 [unfolded inp2]] Cons.prems rest
    have "b = a'" by (auto split: option.splits)
    with Cons.IH [OF c] show ?thesis by (simp add: inps inp1 inp2 segment_x_def)
  qed
qed

lemma contiguous_continuous3d:
  assumes "list_all2 (\<lambda>eid inp. element_inputs3d ds members nodes ze ci cj eid = Inr inp) elems inps"
    and "contiguous members elems"
  shows "gap_free (map segment_xz inps)"
  using assms
proof (induction elems inps rule: list_all2_induct)
  case Nil
  show ?case by simp
next
  case (Cons e1 rest inp1 inps)
  show ?case
  proof (cases rest)
    case Nil
    with Cons.hyps show ?thesis by simp
  next
    case rest: (Cons e2 rest')
    with Cons.hyps obtain inp2 inps' where inps: "inps = inp2 # inps'"
      and i2: "element_inputs3d ds members nodes ze ci cj e2 = Inr inp2"
      by (auto simp: list_all2_Cons1)
    from Cons.prems rest have c: "contiguous members rest" by simp
    obtain a1 c1 a2 c2 v w where inp1: "inp1 = (a1, c1, a2, c2, v, w)" by (cases inp1) auto
    obtain a1' c1' a2' c2' v' w' where inp2: "inp2 = (a1', c1', a2', c2', v', w')" by (cases inp2) auto
    from element_inputs3d_Inr [OF Cons.hyps(1) [unfolded inp1]]
      element_inputs3d_Inr [OF i2 [unfolded inp2]] Cons.prems rest
    have "a2 = a1' \<and> c2 = c1'" by (auto split: option.splits)
    with Cons.IH [OF c] show ?thesis by (simp add: inps inp1 inp2 segment_xz_def)
  qed
qed

lemma profile_x_segments: "profile_x inps = pair_list (map segment_x inps)"
  by (induction inps) (auto simp: profile_x_def pair_list_def segment_x_def)

lemma outline_x_segments:
  "p_x (join_polylines (map (fst \<circ> element_pieces dtype scale) inps)) =
     broken_line (map (\<lambda>s. (fst (fst s), fst (snd s))) (map segment_xz inps))"
  by (induction inps)
     (auto simp: p_x_join broken_line_def segment_xz_def element_pieces_def outline_piece_def
        split: prod.splits)

lemma outline_z_segments:
  "p_z (join_polylines (map (fst \<circ> element_pieces dtype scale) inps)) =
     broken_line (map (\<lambda>s. (snd (fst s), snd (snd s))) (map segment_xz inps))"
  by (induction inps)
     (auto simp: p_z_join broken_line_def segment_xz_def element_pieces_def outline_piece_def
        split: prod.splits)

lemma profile_2d:
  assumes "plot_girder ds members nodes girder ci cj title color unit is_step = Inr f"
  shows "\<exists>inps. collect (element_inputs ds members nodes ci cj) girder = Inr inps \<and>
           traces f = [\<lparr>scatter_x = profile_x inps, scatter_y = profile_y is_step inps,
                        scatter_color = color, scatter_name = title\<rparr>]"
proof -
  from plot_girder_Inr [OF assms] obtain inps where
    a: "collect (element_inputs ds members nodes ci cj) girder = Inr inps"
    and b: "finish_plot title color unit (fold (element_update is_step) inps initial_state) = Inr f"
    by blast
  from finish_plot_Inr [OF b] have "traces f =
      [\<lparr>scatter_x = profile_x inps, scatter_y = profile_y is_step inps,
        scatter_color = color, scatter_name = title\<rparr>]"
    by (auto simp: traces_fold initial_fig x_path_fold y_path_fold profile_x_def profile_y_def)
  with a show ?thesis by blast
qed

lemma girders_3d:
  assumes "plot_girders ds members nodes girders ze ci cj title = Inr f"
  shows "\<exists>sc tss. traces3d f = concat tss \<and> length tss = length girders \<and>
           (\<forall>k < length girders. \<exists>cs inps.
              collect (element_inputs3d ds members nodes ze ci cj) (g_elements (snd (girders ! k))) = Inr inps \<and>
              tss ! k = girder_traces_of (diagram_type ci) sc (fst (girders ! k)) (axis_line ze cs) inps)"
proof -
  from plot_girders_Inr [OF assms] obtain vss sc tss where
    c: "collect (girder_traces ds members nodes ze ci cj sc) girders = Inr tss"
    and d: "f = \<lparr>traces3d = concat tss, title3d = title\<rparr>"
    by blast
  from c have lc: "list_all2 (\<lambda>g ts. girder_traces ds members nodes ze ci cj sc g = Inr ts) girders tss"
    by (simp add: collect_Inr)
  have "\<exists>cs inps.
      collect (element_inputs3d ds members nodes ze ci cj) (g_elements (snd (girders ! k))) = Inr inps \<and>
      tss ! k = girder_traces_of (diagram_type ci) sc (fst (girders ! k)) (axis_line ze cs) inps"
    if "k < length girders" for k
  proof -
    from lc that have "girder_traces ds members nodes ze ci cj sc (girders ! k) = Inr (tss ! k)"
      by (simp add: list_all2_conv_all_nth)
    from girder_traces_Inr [OF this] show ?thesis by blast
  qed
  moreover from lc have "length tss = length girders" by (simp add: list_all2_lengthD)
  ultimately show ?thesis using d by auto
qed

lemma concat_two_triples:
  assumes "length tss = 2" and "tss ! 0 = [a0, o0, h0]" and "tss ! Suc 0 = [a1, o1, h1]"
  shows "concat tss = [a0, o0, h0, a1, o1, h1]"
proof -
  from assms(1) have "tss = [tss ! 0, tss ! Suc 0]" by (rule list_of_two)
  then have "concat tss = tss ! 0 @ tss ! Suc 0" by (metis concat.simps append_Nil2)
  then show ?thesis by (simp add: assms)
qed

lemma demo_contiguous:
  "contiguous demo_members [1, 2]" "contiguous demo_members [3, 4]"
  by (simp_all add: demo_members_def)

lemma demo_shear_collect:
  "collect (element_inputs demo_ds demo_members demo_nodes ''Vy_i'' ''Vy_j'') [1, 2]
     = Inr [(0, 4, 10, 10), (4, 6, - 4, - 4)]"
  by (simp add: demo_inputs_shear and_then_Inr)


subsection \<open>The depth expansion\<close>

lemma collect_map_sum:
  assumes "\<And>x. r x = map_sum id h (r' x)"
  shows "collect r xs = map_sum id (map h) (collect r' xs)"
proof (induction xs)
  case Nil
  show ?case by simp
next
  case (Cons x xs)
  show ?case
    by (cases "r' x"; cases "collect r' xs") (simp_all add: assms [of x] Cons.IH and_then_def)
qed

lemma element_inputs3d_expand:
  "element_inputs3d ds members nodes ze ci cj eid =
     map_sum id (expand_inputs ze) (element_inputs3d ds members nodes 1 ci cj eid)"
  by (simp add: element_inputs3d_def and_then_def member_of_def node_of_def sel_def expand_inputs_def
        split: option.splits prod.splits)

lemma outline_piece_expand:
  "outline_piece x1 (z1 * ze) x2 (z2 * ze) hc = expand_polyline ze (outline_piece x1 z1 x2 z2 hc)"
  by (cases hc) (simp add: outline_piece_def expand_polyline_def)

lemma hatch_line_expand:
  "hatch_line x1 (z1 * ze) x2 (z2 * ze) hc k = expand_polyline ze (hatch_line x1 z1 x2 z2 hc k)"
  by (cases hc) (simp add: hatch_line_def expand_polyline_def Let_def algebra_simps)

lemma join_expand:
  "join_polylines (map (expand_polyline ze) ps) = expand_polyline ze (join_polylines ps)"
  by (simp add: join_polylines_def expand_polyline_def comp_def map_concat)

lemma hatch_piece_expand:
  "hatch_piece x1 (z1 * ze) x2 (z2 * ze) hc = expand_polyline ze (hatch_piece x1 z1 x2 z2 hc)"
proof -
  have "map (hatch_line x1 (z1 * ze) x2 (z2 * ze) hc) ks =
      map (expand_polyline ze) (map (hatch_line x1 z1 x2 z2 hc) ks)" for ks
    by (simp add: hatch_line_expand)
  then show ?thesis by (simp only: hatch_piece_join join_expand)
qed

lemma element_pieces_expand:
  "fst (element_pieces dtype scale (expand_inputs ze inp)) = expand_polyline ze (fst (element_pieces dtype scale inp))"
  "snd (element_pieces dtype scale (expand_inputs ze inp)) = expand_polyline ze (snd (element_pieces dtype scale inp))"
  by (cases inp; simp add: element_pieces_def expand_inputs_def outline_piece_expand hatch_piece_expand)+

lemma axis_line_expand: "axis_line ze cs = expand_polyline ze (axis_line 1 cs)"
  by (simp add: axis_line_def expand_polyline_def comp_def split: prod.splits)

lemma girder_traces_of_expand:
  "girder_traces_of dtype sc name (axis_line ze cs) (map (expand_inputs ze) inps) =
     map (expand_trace ze) (girder_traces_of dtype sc name (axis_line 1 cs) inps)"
proof -
  have a: "map (fst \<circ> element_pieces dtype (HEIGHT_SCALE sc)) (map (expand_inputs ze) inps) =
      map (expand_polyline ze) (map (fst \<circ> element_pieces dtype (HEIGHT_SCALE sc)) inps)"
    by (simp add: element_pieces_expand)
  have b: "map (snd \<circ> element_pieces dtype (HEIGHT_SCALE sc)) (map (expand_inputs ze) inps) =
      map (expand_polyline ze) (map (snd \<circ> element_pieces dtype (HEIGHT_SCALE sc)) inps)"
    by (simp add: element_pieces_expand)
  show ?thesis
    unfolding girder_traces_of_def a b join_expand
    by (simp add: axis_line_expand [of ze] expand_trace_def expand_polyline_def colored_trace_def)
qed

lemma girder_traces_expand:
  "girder_traces ds members nodes ze ci cj sc g =
     map_sum id (map (expand_trace ze)) (girder_traces ds members nodes 1 ci cj sc g)"
proof -
  have "collect (element_inputs3d ds members nodes ze ci cj) (g_elements (snd g)) =
      map_sum id (map (expand_inputs ze))
        (collect (element_inputs3d ds members nodes 1 ci cj) (g_elements (snd g)))"
    by (rule collect_map_sum) (rule element_inputs3d_expand)
  then show ?thesis
    unfolding girder_traces_collect
    by (cases "collect (node_of nodes) (g_nodes (snd g))";
        cases "collect (element_inputs3d ds members nodes 1 ci cj) (g_elements (snd g))")
       (simp_all add: and_then_def girder_traces_of_expand)
qed

lemma plot_girders_expand:
  "plot_girders ds members nodes girders ze ci cj title =
     map_sum id (expand_z ze) (plot_girders ds members nodes girders 1 ci cj title)"
proof -
  have "collect (girder_traces ds members nodes ze ci cj sc) girders =
      map_sum id (map (map (expand_trace ze)))
        (collect (girder_traces ds members nodes 1 ci cj sc) girders)" for sc
    by (rule collect_map_sum) (rule girder_traces_expand)
  then show ?thesis
    unfolding plot_girders_collect
    by (auto simp: and_then_def expand_z_def map_concat split: sum.splits)
qed

lemma erase_expand: "erase_z (expand_z ze f) = erase_z f"
  by (simp add: erase_z_def expand_z_def expand_trace_def comp_def)


subsection \<open>Stepped mode\<close>

lemma plot_girders_shape:
  assumes "plot_girders ds members nodes girders ze ci cj title = Inr f"
  shows "\<exists>vss sc tss.
           collect (girder_samples ds ci cj) girders = Inr vss \<and>
           global_scaling (concat (map pair_list vss)) = Inr sc \<and>
           traces3d f = concat tss \<and> length tss = length girders \<and>
           (\<forall>k < length girders. \<exists>cs inps.
              collect (element_inputs3d ds members nodes ze ci cj) (g_elements (snd (girders ! k))) = Inr inps \<and>
              vss ! k = map samples_of inps \<and>
              tss ! k = girder_traces_of (diagram_type ci) sc (fst (girders ! k)) (axis_line ze cs) inps)"
proof -
  from plot_girders_Inr [OF assms] obtain vss sc tss where
    a: "collect (girder_samples ds ci cj) girders = Inr vss"
    and b: "global_scaling (concat (map pair_list vss)) = Inr sc"
    and c: "collect (girder_traces ds members nodes ze ci cj sc) girders = Inr tss"
    and d: "f = \<lparr>traces3d = concat tss, title3d = title\<rparr>"
    by blast
  from a have la: "list_all2 (\<lambda>g vs. girder_samples ds ci cj g = Inr vs) girders vss"
    by (simp add: collect_Inr)
  from c have lc: "list_all2 (\<lambda>g ts. girder_traces ds members nodes ze ci cj sc g = Inr ts) girders tss"
    by (simp add: collect_Inr)
  have "\<exists>cs inps.
      collect (element_inputs3d ds members nodes ze ci cj) (g_elements (snd (girders ! k))) = Inr inps \<and>
      vss ! k = map samples_of inps \<and>
      tss ! k = girder_traces_of (diagram_type ci) sc (fst (girders ! k)) (axis_line ze cs) inps"
    if k: "k < length girders" for k
  proof -
    from la k have s: "girder_samples ds ci cj (girders ! k) = Inr (vss ! k)"
      by (simp add: list_all2_conv_all_nth)
    from lc k have "girder_traces ds members nodes ze ci cj sc (girders ! k) = Inr (tss ! k)"
      by (simp add: list_all2_conv_all_nth)
    from girder_traces_Inr [OF this] obtain cs inps where
      i: "collect (element_inputs3d ds members nodes ze ci cj) (g_elements (snd (girders ! k))) = Inr inps"
      and t: "tss ! k = girder_traces_of (diagram_type ci) sc (fst (girders ! k)) (axis_line ze cs) inps"
      by blast
    from collect_inputs3d_samples [OF i] s have "vss ! k = map samples_of inps"
      by (simp add: girder_samples_def)
    with i t show ?thesis by blast
  qed
  moreover from lc have "length tss = length girders" by (simp add: list_all2_lengthD)
  ultimately show ?thesis using a b d by auto
qed

lemma shapes_stepped:
  "shapes (fig (fold (element_update True) inps initial_state)) = concat (map stepped_hatch inps)"
proof -
  have "(\<lambda>(x_i, x_j, val_i, val_j).
        map (hatch_shape True x_i x_j val_i (if True then val_i else val_j)) (linspace x_i x_j hatch_density))
      = stepped_hatch"
    by (auto simp: fun_eq_iff stepped_hatch_def hatch_shape_def hatch_value_def hatch_density_def)
  then show ?thesis by (simp add: shapes_fold initial_fig)
qed

lemma element_update_stepped:
  "element_update True (x_i, x_j, val_i, val_j) st = element_update True (x_i, x_j, val_i, val_j') st"
  by (simp add: element_update_def Let_def zero_crossing_def)

lemma element_step_stepped:
  assumes "ds' (eid, ci) = ds (eid, ci)" and "ds (eid, cj) \<noteq> None" and "ds' (eid, cj) \<noteq> None"
  shows "element_step ds' members nodes ci cj True eid st = element_step ds members nodes ci cj True eid st"
proof -
  from assms obtain v v' where "ds (eid, cj) = Some v" "ds' (eid, cj) = Some v'" by auto
  with assms(1) show ?thesis
    by (auto simp: element_step_def element_inputs_def and_then_def member_of_def node_of_def sel_def
          element_update_stepped [of _ _ _ v _ v'] split: option.splits prod.splits)
qed

lemma for_each_cong:
  assumes "\<And>x st. x \<in> set xs \<Longrightarrow> body x st = body' x st"
  shows "for_each body xs st = for_each body' xs st"
  using assms
proof (induction xs arbitrary: st)
  case Nil
  show ?case by simp
next
  case (Cons x xs)
  have "for_each body xs = for_each body' xs"
    using Cons by (auto simp: fun_eq_iff)
  with Cons.prems [of x st] show ?case by simp
qed

lemma plot_girder_stepped_independent:
  assumes "\<forall>eid \<in> set girder. ds' (eid, ci) = ds (eid, ci) \<and> ds (eid, cj) \<noteq> None \<and> ds' (eid, cj) \<noteq> None"
  shows "plot_girder ds' members nodes girder ci cj title color unit True =
         plot_girder ds members nodes girder ci cj title color unit True"
proof -
  have "for_each (element_step ds' members nodes ci cj True) girder initial_state =
      for_each (element_step ds members nodes ci cj True) girder initial_state"
    by (rule for_each_cong) (use assms in \<open>auto intro: element_step_stepped\<close>)
  then show ?thesis by (simp add: plot_girder_def)
qed

lemma element_update3d_stepped:
  "element_update3d ''SFD'' scale (x1, z1, x2, z2, val1, val2) st =
   element_update3d ''SFD'' scale (x1, z1, x2, z2, val1, val2') st"
  by (simp add: element_update3d_def element_heights_def)

lemma stepped_pieces:
  "p_y (fst (element_pieces ''SFD'' scale inp)) =
     [Some (fst (samples_of inp) * scale), Some (fst (samples_of inp) * scale), None]"
  "p_c (fst (element_pieces ''SFD'' scale inp)) =
     [fst (samples_of inp), fst (samples_of inp), fst (samples_of inp)]"
  "p_y (snd (element_pieces ''SFD'' scale inp)) =
     concat (replicate 11 [Some 0, Some (fst (samples_of inp) * scale), None])"
  "p_c (snd (element_pieces ''SFD'' scale inp)) =
     concat (replicate 11 [fst (samples_of inp), fst (samples_of inp), fst (samples_of inp)])"
proof -
  obtain x1 z1 x2 z2 val1 val2 where inp: "inp = (x1, z1, x2, z2, val1, val2)" by (cases inp) auto
  show "p_y (fst (element_pieces ''SFD'' scale inp)) =
     [Some (fst (samples_of inp) * scale), Some (fst (samples_of inp) * scale), None]"
    and "p_c (fst (element_pieces ''SFD'' scale inp)) =
     [fst (samples_of inp), fst (samples_of inp), fst (samples_of inp)]"
    by (simp_all add: inp element_pieces_def outline_piece_def element_heights_def samples_of_def)
  have "map (\<lambda>k. [Some 0, Some (val1 * scale), None]) [0..<11] =
      replicate 11 [Some 0, Some (val1 * scale), None]"
    by (simp add: map_replicate_const)
  then show "p_y (snd (element_pieces ''SFD'' scale inp)) =
     concat (replicate 11 [Some 0, Some (fst (samples_of inp) * scale), None])"
    by (simp add: inp element_pieces_def hatch_piece_join p_y_join hatch_line_def element_heights_def
          samples_of_def num_lines_def Let_def comp_def del: upt.simps)
  have "map (\<lambda>k. [val1, val1, val1]) [0..<11] = replicate 11 [val1, val1, val1]"
    by (simp add: map_replicate_const)
  then show "p_c (snd (element_pieces ''SFD'' scale inp)) =
     concat (replicate 11 [fst (samples_of inp), fst (samples_of inp), fst (samples_of inp)])"
    by (simp add: inp element_pieces_def hatch_piece_join p_c_join hatch_line_def element_heights_def
          samples_of_def num_lines_def Let_def comp_def del: upt.simps)
qed

lemma collect_inputs_defined:
  assumes "collect (element_inputs ds members nodes ci cj) girder = Inr inps" and "eid \<in> set girder"
  shows "ds (eid, ci) \<noteq> None \<and> ds (eid, cj) \<noteq> None"
proof -
  from assms(1) have "list_all2 (\<lambda>eid inp. element_inputs ds members nodes ci cj eid = Inr inp) girder inps"
    by (simp add: collect_Inr)
  with assms(2) obtain inp where "element_inputs ds members nodes ci cj eid = Inr inp"
    unfolding list_all2_conv_all_nth in_set_conv_nth by blast
  then show ?thesis
    by (cases inp) (auto dest!: element_inputs_Inr)
qed

lemma stepped_2d:
  assumes "plot_girder ds members nodes girder ci cj title color unit True = Inr f"
  shows "(\<exists>inps. collect (element_inputs ds members nodes ci cj) girder = Inr inps \<and>
            map scatter_y (traces f) = [stepped_path inps] \<and>
            shapes f = concat (map stepped_hatch inps)) \<and>
         (\<forall>ds'. (\<forall>eid \<in> set girder. ds' (eid, ci) = ds (eid, ci) \<and> ds' (eid, cj) \<noteq> None) \<longrightarrow>
            plot_girder ds' members nodes girder ci cj title color unit True = Inr f)"
proof (intro conjI allI impI)
  from plot_girder_Inr [OF assms] obtain inps where
    a: "collect (element_inputs ds members nodes ci cj) girder = Inr inps"
    and b: "finish_plot title color unit (fold (element_update True) inps initial_state) = Inr f"
    by blast
  from finish_plot_Inr [OF b] have "shapes f = concat (map stepped_hatch inps)"
    and "map scatter_y (traces f) = [stepped_path inps]"
    by (auto simp: shapes_stepped traces_fold initial_fig y_path_fold stepped_path_def)
  with a show "\<exists>inps. collect (element_inputs ds members nodes ci cj) girder = Inr inps \<and>
            map scatter_y (traces f) = [stepped_path inps] \<and>
            shapes f = concat (map stepped_hatch inps)"
    by (intro exI [of _ inps]) simp
  fix ds' :: dataset
  assume d: "\<forall>eid \<in> set girder. ds' (eid, ci) = ds (eid, ci) \<and> ds' (eid, cj) \<noteq> None"
  have "\<forall>eid \<in> set girder. ds' (eid, ci) = ds (eid, ci) \<and> ds (eid, cj) \<noteq> None \<and> ds' (eid, cj) \<noteq> None"
    using d collect_inputs_defined [OF a] by blast
  from plot_girder_stepped_independent [OF this] assms
  show "plot_girder ds' members nodes girder ci cj title color unit True = Inr f"
    by simp
qed

lemma stepped_3d:
  assumes "plot_girders ds members nodes girders ze ci cj title = Inr f"
    and "diagram_type ci = ''SFD''"
  shows "\<exists>vss sc tss.
           collect (girder_samples ds ci cj) girders = Inr vss \<and>
           global_scaling (concat (map pair_list vss)) = Inr sc \<and>
           traces3d f = concat tss \<and> length tss = length girders \<and>
           (\<forall>k < length girders. \<exists>axis outline hatch.
              tss ! k = [axis, outline, hatch] \<and>
              t_y outline = stepped_outline (HEIGHT_SCALE sc) (vss ! k) \<and>
              t_line outline = Colorscale (stepped_outline_colors (vss ! k)) (C_MIN sc) (C_MAX sc) False \<and>
              t_y hatch = stepped_fence (HEIGHT_SCALE sc) (vss ! k) \<and>
              t_line hatch = Colorscale (stepped_fence_colors (vss ! k)) (C_MIN sc) (C_MAX sc)
                 (fst (girders ! k) = ''Girder 1''))"
proof -
  from plot_girders_shape [OF assms(1)] obtain vss sc tss where
    a: "collect (girder_samples ds ci cj) girders = Inr vss"
    and b: "global_scaling (concat (map pair_list vss)) = Inr sc"
    and t: "traces3d f = concat tss" and l: "length tss = length girders"
    and k: "\<forall>k < length girders. \<exists>cs inps.
              collect (element_inputs3d ds members nodes ze ci cj) (g_elements (snd (girders ! k))) = Inr inps \<and>
              vss ! k = map samples_of inps \<and>
              tss ! k = girder_traces_of (diagram_type ci) sc (fst (girders ! k)) (axis_line ze cs) inps"
    by blast
  have "\<exists>axis outline hatch.
              tss ! k = [axis, outline, hatch] \<and>
              t_y outline = stepped_outline (HEIGHT_SCALE sc) (vss ! k) \<and>
              t_line outline = Colorscale (stepped_outline_colors (vss ! k)) (C_MIN sc) (C_MAX sc) False \<and>
              t_y hatch = stepped_fence (HEIGHT_SCALE sc) (vss ! k) \<and>
              t_line hatch = Colorscale (stepped_fence_colors (vss ! k)) (C_MIN sc) (C_MAX sc)
                 (fst (girders ! k) = ''Girder 1'')"
    if "k < length girders" for k
  proof -
    from k that obtain cs inps where
      v: "vss ! k = map samples_of inps"
      and tk: "tss ! k = girder_traces_of ''SFD'' sc (fst (girders ! k)) (axis_line ze cs) inps"
      unfolding assms(2) by blast
    show ?thesis
      unfolding tk v girder_traces_of_def
      by (simp add: colored_trace_def p_y_join p_c_join comp_def stepped_pieces
            stepped_outline_def stepped_fence_def stepped_outline_colors_def stepped_fence_colors_def)
  qed
  with a b t l show ?thesis by blast
qed

lemma demo_shear_collect2:
  "collect (element_inputs demo_ds demo_members demo_nodes ''Vy_i'' ''Vy_j'') [3, 4]
     = Inr [(0, 4, 1, 7), (4, 4, 1, 1)]"
  by (simp add: element_inputs_def and_then_def member_of_def node_of_def sel_def
        demo_ds_def demo_members_def demo_nodes_def)


subsection \<open>Linear mode\<close>

lemma hatch_value_at_fraction:
  assumes "x_i \<noteq> x_j"
  shows "hatch_value False x_i x_j val_i val_j (x_i + f * (x_j - x_i)) = Some (interpolate val_i val_j f)"
  using assms by (simp add: hatch_value_def interpolate_def)








subsection \<open>Sample positions of the hatching\<close>

lemma hatch_shape_sample:
  "hatch_shape is_step x_i x_j val_i (if is_step then val_i else val_j) (x_i + real k * ((x_j - x_i) / 11))
     = hatch_sample is_step x_i x_j val_i val_j k"
proof (cases "x_i = x_j")
  case True
  then show ?thesis by (simp add: hatch_shape_def hatch_sample_def hatch_value_def)
next
  case False
  from hatch_value_at_fraction [OF False, of val_i val_j "real k / 11"]
  show ?thesis using False by (simp add: hatch_shape_def hatch_sample_def hatch_value_def)
qed

lemma element_hatch_samples:
  "shapes (fig (element_update is_step (x_i, x_j, val_i, val_j) st)) =
     shapes (fig st) @ map (hatch_sample is_step x_i x_j val_i val_j) [0..<12]"
proof -
  have "(\<lambda>k. hatch_shape is_step x_i x_j val_i (if is_step then val_i else val_j)
            (x_i + real k * ((x_j - x_i) / 11))) = hatch_sample is_step x_i x_j val_i val_j"
    by (rule ext) (rule hatch_shape_sample)
  then have "map (hatch_shape is_step x_i x_j val_i (if is_step then val_i else val_j))
        (linspace x_i x_j hatch_density) = map (hatch_sample is_step x_i x_j val_i val_j) [0..<12]"
    by (simp add: hatch_density_def linspace_map comp_def del: upt.simps)
  then show ?thesis by (simp add: element_update_def Let_def)
qed

lemma interpolate_forms:
  "a + (b - a) * f = interpolate a b f"
  "interpolate (v * s) (w * s) f = interpolate v w f * s"
  by (simp_all add: interpolate_def algebra_simps)

lemma hatch_line_sample:
  "hatch_line x1 z1 x2 z2 (element_heights dtype scale val1 val2) k
     = fence_sample dtype scale x1 z1 x2 z2 val1 val2 k"
proof -
  have r: "[c, c, c] = replicate 3 c" for c :: real by (simp add: numeral_3_eq_3)
  have n: "real num_lines = 10" by (simp add: num_lines_def)
  show ?thesis
    unfolding hatch_line_def fence_sample_def element_heights_def end_value_def Let_def n
    by (cases "dtype = ''SFD''") (simp_all only: prod.case if_True if_False fst_conv snd_conv
          interpolate_forms r simp_thms)
qed

lemma element_fence_samples:
  "snd (element_update3d dtype scale (x1, z1, x2, z2, val1, val2) st) =
     extend_polyline (snd st)
       (join_polylines (map (fence_sample dtype scale x1 z1 x2 z2 val1 val2) [0..<11]))"
proof -
  have "hatch_line x1 z1 x2 z2 (element_heights dtype scale val1 val2) =
      fence_sample dtype scale x1 z1 x2 z2 val1 val2"
    by (rule ext) (rule hatch_line_sample)
  then show ?thesis
    by (simp add: element_update3d_def Let_def hatch_piece_join num_lines_def del: upt.simps)
qed


subsection \<open>Zero crossings, stepped heights, first hatch line, gaps\<close>









lemma stepped_3d_scale:
  assumes "plot_girders ds members nodes girders ze ci cj title = Inr f"
    and "diagram_type ci = ''SFD''"
  shows "\<exists>vss sc tss.
           collect (girder_samples ds ci cj) girders = Inr vss \<and>
           global_scaling (concat (map pair_list vss)) = Inr sc \<and>
           HEIGHT_SCALE sc = 5 / Max (set (map abs (concat (map pair_list vss)))) \<and>
           C_MIN sc = Min (set (concat (map pair_list vss))) \<and>
           C_MAX sc = Max (set (concat (map pair_list vss))) \<and>
           traces3d f = concat tss \<and> length tss = length girders \<and>
           (\<forall>k < length girders. \<exists>axis outline hatch.
              tss ! k = [axis, outline, hatch] \<and>
              t_y outline = stepped_outline (HEIGHT_SCALE sc) (vss ! k) \<and>
              t_line outline = Colorscale (stepped_outline_colors (vss ! k)) (C_MIN sc) (C_MAX sc) False \<and>
              t_y hatch = stepped_fence (HEIGHT_SCALE sc) (vss ! k) \<and>
              t_line hatch = Colorscale (stepped_fence_colors (vss ! k)) (C_MIN sc) (C_MAX sc)
                 (fst (girders ! k) = ''Girder 1''))"
proof -
  from stepped_3d [OF assms] obtain vss sc tss where
    a: "collect (girder_samples ds ci cj) girders = Inr vss"
    and b: "global_scaling (concat (map pair_list vss)) = Inr sc"
    and r: "traces3d f = concat tss \<and> length tss = length girders \<and>
           (\<forall>k < length girders. \<exists>axis outline hatch.
              tss ! k = [axis, outline, hatch] \<and>
              t_y outline = stepped_outline (HEIGHT_SCALE sc) (vss ! k) \<and>
              t_line outline = Colorscale (stepped_outline_colors (vss ! k)) (C_MIN sc) (C_MAX sc) False \<and>
              t_y hatch = stepped_fence (HEIGHT_SCALE sc) (vss ! k) \<and>
              t_line hatch = Colorscale (stepped_fence_colors (vss ! k)) (C_MIN sc) (C_MAX sc)
                 (fst (girders ! k) = ''Girder 1''))"
    by blast
  from global_scaling_Inr(4,5,6) [OF b] a b r show ?thesis by blast
qed

lemma stepped_outline_second_girder:
  assumes "plot_girders ds members nodes girders ze ci cj title = Inr f"
    and "diagram_type ci = ''SFD''" and "length girders = 2"
    and "collect (girder_samples ds ci cj) girders = Inr vss"
    and "global_scaling (concat (map pair_list vss)) = Inr sc"
  shows "map t_y (traces3d f) ! 4 = stepped_outline (HEIGHT_SCALE sc) (vss ! Suc 0)"
proof -
  from stepped_3d [OF assms(1,2)] obtain vss' sc' tss where
    a: "collect (girder_samples ds ci cj) girders = Inr vss'"
    and b: "global_scaling (concat (map pair_list vss')) = Inr sc'"
    and t: "traces3d f = concat tss" and l: "length tss = length girders"
    and k: "\<forall>k < length girders. \<exists>axis outline hatch.
              tss ! k = [axis, outline, hatch] \<and>
              t_y outline = stepped_outline (HEIGHT_SCALE sc') (vss' ! k)"
    by blast
  from a assms(4) have v: "vss' = vss" by simp
  with b assms(5) have s: "sc' = sc" by simp
  from k [rule_format, of 0] assms(3) obtain a0 o0 h0 where t0: "tss ! 0 = [a0, o0, h0]"
    by auto
  from k [rule_format, of "Suc 0"] assms(3) obtain a1 o1 h1 where t1: "tss ! Suc 0 = [a1, o1, h1]"
    and y1: "t_y o1 = stepped_outline (HEIGHT_SCALE sc') (vss' ! Suc 0)"
    by auto
  from l assms(3) t0 t1 have "concat tss = [a0, o0, h0, a1, o1, h1]"
    by (intro concat_two_triples) simp_all
  with t y1 show ?thesis by (simp add: v s)
qed

lemma demo_changed_samples:
  "collect (girder_samples (demo_ds((3, ''Vy_j'') \<mapsto> 100)) ''Vy_i'' ''Vy_j'') demo_girders
     = Inr [[(10, 10), (- 4, - 4)], [(1, 100), (1, 1)]]"
  by (simp add: girder_samples_def demo_girders_def sample_pair_def sel_def demo_ds_def and_then_def)

lemma demo_changed_scaling:
  "global_scaling (concat (map pair_list [[(10, 10), (- 4, - 4)], [(1, 100), (1, 1)]]))
     = Inr \<lparr>max_abs_val = 100, HEIGHT_SCALE = 1 / 20, C_MIN = - 4, C_MAX = 100\<rparr>"
  by (simp add: global_scaling_def pair_list_def py_max_def py_min_def py_div_def
        TARGET_HEIGHT_def and_then_def Let_def)

lemma demo_changed_inputs3d:
  "collect (element_inputs3d (demo_ds((3, ''Vy_j'') \<mapsto> 100)) demo_members demo_nodes ze ''Vy_i'' ''Vy_j'') [1, 2]
     = Inr [(0, 0 * ze, 4, 0 * ze, 10, 10), (4, 0 * ze, 6, 0 * ze, - 4, - 4)]"
  "collect (element_inputs3d (demo_ds((3, ''Vy_j'') \<mapsto> 100)) demo_members demo_nodes ze ''Vy_i'' ''Vy_j'') [3, 4]
     = Inr [(0, 2 * ze, 4, 2 * ze, 1, 100), (4, 2 * ze, 4, 3 * ze, 1, 1)]"
  by (simp_all add: element_inputs3d_def member_of_def node_of_def sel_def and_then_def
        demo_ds_def demo_members_def demo_nodes_def)

lemma demo_changed_plot:
  "\<exists>f. plot_girders (demo_ds((3, ''Vy_j'') \<mapsto> 100)) demo_members demo_nodes demo_girders ze
          ''Vy_i'' ''Vy_j'' title = Inr f"
proof -
  let ?sc = "\<lparr>max_abs_val = 100, HEIGHT_SCALE = 1 / 20, C_MIN = - 4, C_MAX = 100\<rparr>"
  let ?ds = "demo_ds((3, ''Vy_j'') \<mapsto> 100)"
  have "\<exists>ts. girder_traces ?ds demo_members demo_nodes ze ''Vy_i'' ''Vy_j'' ?sc
      (''Girder 1'', \<lparr>g_elements = [1, 2], g_nodes = [1, 2, 3]\<rparr>) = Inr ts"
    and "\<exists>ts. girder_traces ?ds demo_members demo_nodes ze ''Vy_i'' ''Vy_j'' ?sc
      (''Girder 2'', \<lparr>g_elements = [3, 4], g_nodes = [4, 5, 6]\<rparr>) = Inr ts"
    by (simp_all add: girder_traces_collect demo_nodes_collect demo_changed_inputs3d and_then_Inr
          del: collect.simps)
  then obtain t1 t2 where
    "girder_traces ?ds demo_members demo_nodes ze ''Vy_i'' ''Vy_j'' ?sc
      (''Girder 1'', \<lparr>g_elements = [1, 2], g_nodes = [1, 2, 3]\<rparr>) = Inr t1"
    "girder_traces ?ds demo_members demo_nodes ze ''Vy_i'' ''Vy_j'' ?sc
      (''Girder 2'', \<lparr>g_elements = [3, 4], g_nodes = [4, 5, 6]\<rparr>) = Inr t2"
    by blast
  then have "collect (girder_traces ?ds demo_members demo_nodes ze ''Vy_i'' ''Vy_j'' ?sc) demo_girders
      = Inr [t1, t2]"
    by (simp add: demo_girders_def and_then_Inr)
  then show ?thesis
    unfolding plot_girders_collect demo_changed_samples and_then_Inr demo_changed_scaling
    by (simp add: and_then_Inr)
qed



lemma gaps_2d:
  assumes "plot_girder ds members nodes girder ci cj title color unit is_step = Inr f"
  shows "\<exists>inps. collect (element_inputs ds members nodes ci cj) girder = Inr inps \<and>
           map scatter_x (traces f) = [pair_list (map segment_x inps)] \<and>
           (contiguous members girder \<longrightarrow> gap_free (map segment_x inps))"
proof -
  from profile_2d [OF assms] obtain inps where
    a: "collect (element_inputs ds members nodes ci cj) girder = Inr inps"
    and t: "map scatter_x (traces f) = [pair_list (map segment_x inps)]"
    by (auto simp: profile_x_segments)
  from a have "list_all2 (\<lambda>eid inp. element_inputs ds members nodes ci cj eid = Inr inp) girder inps"
    by (simp add: collect_Inr)
  then have "contiguous members girder \<longrightarrow> gap_free (map segment_x inps)"
    using contiguous_continuous by blast
  with a t show ?thesis by (intro exI [of _ inps]) simp
qed

lemma gaps_3d:
  assumes "plot_girders ds members nodes girders ze ci cj title = Inr f"
  shows "\<exists>tss. traces3d f = concat tss \<and> length tss = length girders \<and>
         (\<forall>k < length girders. \<exists>axis outline hatch inps.
            tss ! k = [axis, outline, hatch] \<and>
            collect (element_inputs3d ds members nodes ze ci cj) (g_elements (snd (girders ! k))) = Inr inps \<and>
            t_x outline = broken_line (map (\<lambda>s. (fst (fst s), fst (snd s))) (map segment_xz inps)) \<and>
            t_z outline = broken_line (map (\<lambda>s. (snd (fst s), snd (snd s))) (map segment_xz inps)) \<and>
            (contiguous members (g_elements (snd (girders ! k))) \<longrightarrow> gap_free (map segment_xz inps)))"
proof -
  from girders_3d [OF assms] obtain sc tss where
    t: "traces3d f = concat tss" and l: "length tss = length girders"
    and k: "\<forall>k < length girders. \<exists>cs inps.
              collect (element_inputs3d ds members nodes ze ci cj) (g_elements (snd (girders ! k))) = Inr inps \<and>
              tss ! k = girder_traces_of (diagram_type ci) sc (fst (girders ! k)) (axis_line ze cs) inps"
    by blast
  have "\<exists>axis outline hatch inps.
            tss ! k = [axis, outline, hatch] \<and>
            collect (element_inputs3d ds members nodes ze ci cj) (g_elements (snd (girders ! k))) = Inr inps \<and>
            t_x outline = broken_line (map (\<lambda>s. (fst (fst s), fst (snd s))) (map segment_xz inps)) \<and>
            t_z outline = broken_line (map (\<lambda>s. (snd (fst s), snd (snd s))) (map segment_xz inps)) \<and>
            (contiguous members (g_elements (snd (girders ! k))) \<longrightarrow> gap_free (map segment_xz inps))"
    if kk: "k < length girders" for k
  proof -
    from k kk obtain cs inps where
      i: "collect (element_inputs3d ds members nodes ze ci cj) (g_elements (snd (girders ! k))) = Inr inps"
      and tk: "tss ! k = girder_traces_of (diagram_type ci) sc (fst (girders ! k)) (axis_line ze cs) inps"
      by blast
    from i have "list_all2 (\<lambda>eid inp. element_inputs3d ds members nodes ze ci cj eid = Inr inp)
        (g_elements (snd (girders ! k))) inps"
      by (simp add: collect_Inr)
    then have "contiguous members (g_elements (snd (girders ! k))) \<longrightarrow> gap_free (map segment_xz inps)"
      using contiguous_continuous3d by blast
    with i tk show ?thesis
      unfolding girder_traces_of_def
      by (simp add: colored_trace_def outline_x_segments outline_z_segments)
  qed
  with t l show ?thesis by blast
qed

section \<open>The properties\<close>




text \<open>
  C2. In the 3D diagram one height scale, 5 divided by the largest absolute value among
  all start and end samples of all elements of all girders, multiplies the heights of
  every girder: the outline and the fence of the \<open>k\<close>-th girder are its own samples
  times this one factor.
\<close>

theorem single_global_height_scale:
  assumes "plot_girders ds members nodes girders ze ci cj title = Inr f"
  shows "\<exists>vss tss.
           collect (girder_samples ds ci cj) girders = Inr vss \<and>
           concat (map pair_list vss) \<noteq> [] \<and>
           traces3d f = concat tss \<and> length tss = length girders \<and>
           (\<forall>k < length girders. \<exists>axis outline hatch.
              tss ! k = [axis, outline, hatch] \<and>
              t_y outline = scaled_outline (diagram_type ci)
                 (5 / Max (set (map abs (concat (map pair_list vss))))) (vss ! k) \<and>
              t_y hatch = scaled_fence (diagram_type ci)
                 (5 / Max (set (map abs (concat (map pair_list vss))))) (vss ! k))"
proof -
  from plot_girders_Inr [OF assms] obtain vss sc tss where
    a: "collect (girder_samples ds ci cj) girders = Inr vss"
    and b: "global_scaling (concat (map pair_list vss)) = Inr sc"
    and c: "collect (girder_traces ds members nodes ze ci cj sc) girders = Inr tss"
    and d: "f = \<lparr>traces3d = concat tss, title3d = title\<rparr>"
    by blast
  let ?scale = "5 / Max (set (map abs (concat (map pair_list vss))))"
  have hs: "HEIGHT_SCALE sc = ?scale" by (rule global_scaling_Inr(4) [OF b])
  have ne: "concat (map pair_list vss) \<noteq> []" by (rule global_scaling_Inr(1) [OF b])
  from a have la: "list_all2 (\<lambda>g vs. girder_samples ds ci cj g = Inr vs) girders vss"
    by (simp add: collect_Inr)
  from c have lc: "list_all2 (\<lambda>g ts. girder_traces ds members nodes ze ci cj sc g = Inr ts) girders tss"
    by (simp add: collect_Inr)
  have "\<exists>axis outline hatch.
              tss ! k = [axis, outline, hatch] \<and>
              t_y outline = scaled_outline (diagram_type ci) ?scale (vss ! k) \<and>
              t_y hatch = scaled_fence (diagram_type ci) ?scale (vss ! k)"
    if k: "k < length girders" for k
  proof -
    from la k have s: "girder_samples ds ci cj (girders ! k) = Inr (vss ! k)"
      by (simp add: list_all2_conv_all_nth)
    from lc k have "girder_traces ds members nodes ze ci cj sc (girders ! k) = Inr (tss ! k)"
      by (simp add: list_all2_conv_all_nth)
    from girder_traces_Inr [OF this] obtain cs inps where
      i: "collect (element_inputs3d ds members nodes ze ci cj) (g_elements (snd (girders ! k))) = Inr inps"
      and t: "tss ! k = girder_traces_of (diagram_type ci) sc (fst (girders ! k)) (axis_line ze cs) inps"
      by blast
    from collect_inputs3d_samples [OF i] s have v: "vss ! k = map samples_of inps"
      by (simp add: girder_samples_def)
    show ?thesis
      unfolding t girder_traces_of_def v
      by (simp add: colored_trace_def outline_of_samples fence_of_samples hs)
  qed
  moreover from lc have "length tss = length girders" by (simp add: list_all2_lengthD)
  ultimately show ?thesis using a ne d by auto
qed

theorem single_global_height_scale_witness:
  "\<exists>f. plot_girders demo_ds demo_members demo_nodes demo_girders (3 / 2) ''Mz_i'' ''Mz_j'' ''BMD'' = Inr f \<and>
       map t_y (traces3d f) ! 1 = [Some 5, Some (- 5 / 2), None, Some (- 5 / 2), Some (- 1 / 2), None] \<and>
       map t_y (traces3d f) ! 4 = [Some 1, Some (3 / 2), None, Some (1 / 2), Some 1, None]"
proof -
  from demo_plot_moment obtain f where
    f: "plot_girders demo_ds demo_members demo_nodes demo_girders (3 / 2) ''Mz_i'' ''Mz_j'' ''BMD'' = Inr f"
    by blast
  let ?vss = "[[(10, - 5), (- 5, - 1)], [(2, 3), (1, 2)]] :: (real \<times> real) list list"
  have m: "5 / Max (set (map abs (concat (map pair_list ?vss)))) = 1 / 2"
    by (simp add: pair_list_def)
  from single_global_height_scale [OF f] obtain vss tss where
    a: "collect (girder_samples demo_ds ''Mz_i'' ''Mz_j'') demo_girders = Inr vss"
    and t: "traces3d f = concat tss" and l: "length tss = length demo_girders"
    and k: "\<forall>k < length demo_girders. \<exists>axis outline hatch.
              tss ! k = [axis, outline, hatch] \<and>
              t_y outline = scaled_outline (diagram_type ''Mz_i'')
                 (5 / Max (set (map abs (concat (map pair_list vss))))) (vss ! k) \<and>
              t_y hatch = scaled_fence (diagram_type ''Mz_i'')
                 (5 / Max (set (map abs (concat (map pair_list vss))))) (vss ! k)"
    by blast
  from a have v: "vss = ?vss" unfolding demo_samples_moment by simp
  note k' = k [unfolded v m diagram_type_demo, rule_format]
  have two: "length demo_girders = 2" by (simp add: demo_girders_def)
  from l two have s: "tss = [tss ! 0, tss ! Suc 0]" by (intro list_of_two) simp
  from k' [of 0] two obtain a0 o0 h0 where t0: "tss ! 0 = [a0, o0, h0]"
    and y0: "t_y o0 = scaled_outline ''BMD'' (1 / 2) (?vss ! 0)"
    by auto
  from k' [of "Suc 0"] two obtain a1 o1 h1 where t1: "tss ! Suc 0 = [a1, o1, h1]"
    and y1: "t_y o1 = scaled_outline ''BMD'' (1 / 2) (?vss ! Suc 0)"
    by auto
  have "concat tss = [a0, o0, h0, a1, o1, h1]"
    by (subst s) (simp add: t0 t1)
  with t have "traces3d f = [a0, o0, h0, a1, o1, h1]" by simp
  moreover from y0 have "t_y o0 = [Some 5, Some (- 5 / 2), None, Some (- 5 / 2), Some (- 1 / 2), None]"
    by (simp add: scaled_outline_def end_value_def)
  moreover from y1 have "t_y o1 = [Some 1, Some (3 / 2), None, Some (1 / 2), Some 1, None]"
    by (simp add: scaled_outline_def end_value_def)
  ultimately show ?thesis using f by simp
qed

text \<open>
  C3, amended. In stepped (shear) mode every segment is flat at the start-node sample.
  In the 2D figure the boundary path has the start sample at both ends of each element,
  every hatch line ends at the start sample, and the figure is the same for any dataset
  that has the same start samples (and some end samples): the end sample is not used.
  In the 3D figure both ends of each outline segment and every fence line have the
  start sample times the height scale as height and the start sample as colour, and the
  loop body gives the same result whatever the end sample is. But the height scale, 5
  over the largest absolute value of all start and end samples, and the colour limits,
  the least and the largest of all start and end samples, do depend on the end samples.
\<close>

theorem stepped_segment_is_constant:
  "(plot_girder ds members nodes girder ci cj title color unit True = Inr f \<longrightarrow>
      (\<exists>inps. collect (element_inputs ds members nodes ci cj) girder = Inr inps \<and>
         map scatter_y (traces f) = [stepped_path inps] \<and>
         shapes f = concat (map stepped_hatch inps)) \<and>
      (\<forall>ds'. (\<forall>eid \<in> set girder. ds' (eid, ci) = ds (eid, ci) \<and> ds' (eid, cj) \<noteq> None) \<longrightarrow>
         plot_girder ds' members nodes girder ci cj title color unit True = Inr f)) \<and>
   (plot_girders ds members nodes girders ze ci cj title3 = Inr f3 \<and> diagram_type ci = ''SFD'' \<longrightarrow>
      (\<exists>vss sc tss.
         collect (girder_samples ds ci cj) girders = Inr vss \<and>
         global_scaling (concat (map pair_list vss)) = Inr sc \<and>
         HEIGHT_SCALE sc = 5 / Max (set (map abs (concat (map pair_list vss)))) \<and>
         C_MIN sc = Min (set (concat (map pair_list vss))) \<and>
         C_MAX sc = Max (set (concat (map pair_list vss))) \<and>
         traces3d f3 = concat tss \<and> length tss = length girders \<and>
         (\<forall>k < length girders. \<exists>axis outline hatch.
            tss ! k = [axis, outline, hatch] \<and>
            t_y outline = stepped_outline (HEIGHT_SCALE sc) (vss ! k) \<and>
            t_line outline = Colorscale (stepped_outline_colors (vss ! k)) (C_MIN sc) (C_MAX sc) False \<and>
            t_y hatch = stepped_fence (HEIGHT_SCALE sc) (vss ! k) \<and>
            t_line hatch = Colorscale (stepped_fence_colors (vss ! k)) (C_MIN sc) (C_MAX sc)
               (fst (girders ! k) = ''Girder 1'')))) \<and>
   (\<forall>scale x1 z1 x2 z2 val1 val2 val2' st.
      element_update3d ''SFD'' scale (x1, z1, x2, z2, val1, val2) st =
      element_update3d ''SFD'' scale (x1, z1, x2, z2, val1, val2') st)"
  using stepped_2d [of ds members nodes girder ci cj title color unit f]
    stepped_3d_scale [of ds members nodes girders ze ci cj title3 f3]
    element_update3d_stepped
  by blast

theorem stepped_segment_is_constant_witness:
  "\<exists>f f3.
     plot_girder demo_ds demo_members demo_nodes [3, 4] ''Vy_i'' ''Vy_j'' ''SFD'' ''blue'' ''kN'' True = Inr f \<and>
     map scatter_y (traces f) = [[1, 1, 1, 1]] \<and>
     plot_girder (demo_ds((3, ''Vy_j'') \<mapsto> 100)) demo_members demo_nodes [3, 4]
        ''Vy_i'' ''Vy_j'' ''SFD'' ''blue'' ''kN'' True = Inr f \<and>
     plot_girders demo_ds demo_members demo_nodes demo_girders (3 / 2) ''Vy_i'' ''Vy_j'' ''SFD'' = Inr f3 \<and>
     diagram_type ''Vy_i'' = ''SFD'' \<and>
     map t_y (traces3d f3) ! 4 = [Some (1 / 2), Some (1 / 2), None, Some (1 / 2), Some (1 / 2), None]"
proof -
  from plot_girder_succeeds [OF demo_shear_collect2] obtain f where
    f: "plot_girder demo_ds demo_members demo_nodes [3, 4] ''Vy_i'' ''Vy_j'' ''SFD'' ''blue'' ''kN'' True = Inr f"
    by blast
  from demo_plot_shear obtain f3 where
    f3: "plot_girders demo_ds demo_members demo_nodes demo_girders (3 / 2) ''Vy_i'' ''Vy_j'' ''SFD'' = Inr f3"
    by blast
  note inst = stepped_segment_is_constant [of demo_ds demo_members demo_nodes "[3, 4]"
      "''Vy_i''" "''Vy_j''" "''SFD''" "''blue''" "''kN''" f demo_girders "3 / 2" "''SFD''" f3]
  note c1 = mp [OF inst [THEN conjunct1] f]
  note p2 = c1 [THEN conjunct1]
  note ind = c1 [THEN conjunct2]
  note c2 = mp [OF inst [THEN conjunct2, THEN conjunct1] conjI [OF f3 diagram_type_demo(1)]]
  from p2 have y: "map scatter_y (traces f) = [[1, 1, 1, 1]]"
    unfolding demo_shear_collect2 by (auto simp: stepped_path_def)
  have "\<forall>eid \<in> set [3, 4]. (demo_ds((3, ''Vy_j'') \<mapsto> 100)) (eid, ''Vy_i'') = demo_ds (eid, ''Vy_i'') \<and>
      (demo_ds((3, ''Vy_j'') \<mapsto> 100)) (eid, ''Vy_j'') \<noteq> None"
    by (simp add: demo_ds_def)
  with ind have i: "plot_girder (demo_ds((3, ''Vy_j'') \<mapsto> 100)) demo_members demo_nodes [3, 4]
        ''Vy_i'' ''Vy_j'' ''SFD'' ''blue'' ''kN'' True = Inr f"
    by blast
  from c2 obtain vss where "\<exists>sc tss. collect (girder_samples demo_ds ''Vy_i'' ''Vy_j'') demo_girders = Inr vss \<and>
         global_scaling (concat (map pair_list vss)) = Inr sc \<and>
         HEIGHT_SCALE sc = 5 / Max (set (map abs (concat (map pair_list vss)))) \<and>
         C_MIN sc = Min (set (concat (map pair_list vss))) \<and>
         C_MAX sc = Max (set (concat (map pair_list vss))) \<and>
         traces3d f3 = concat tss \<and> length tss = length demo_girders \<and>
         (\<forall>k < length demo_girders. \<exists>axis outline hatch.
            tss ! k = [axis, outline, hatch] \<and>
            t_y outline = stepped_outline (HEIGHT_SCALE sc) (vss ! k) \<and>
            t_line outline = Colorscale (stepped_outline_colors (vss ! k)) (C_MIN sc) (C_MAX sc) False \<and>
            t_y hatch = stepped_fence (HEIGHT_SCALE sc) (vss ! k) \<and>
            t_line hatch = Colorscale (stepped_fence_colors (vss ! k)) (C_MIN sc) (C_MAX sc)
               (fst (demo_girders ! k) = ''Girder 1''))" ..
  then obtain sc where "\<exists>tss. collect (girder_samples demo_ds ''Vy_i'' ''Vy_j'') demo_girders = Inr vss \<and>
         global_scaling (concat (map pair_list vss)) = Inr sc \<and>
         HEIGHT_SCALE sc = 5 / Max (set (map abs (concat (map pair_list vss)))) \<and>
         C_MIN sc = Min (set (concat (map pair_list vss))) \<and>
         C_MAX sc = Max (set (concat (map pair_list vss))) \<and>
         traces3d f3 = concat tss \<and> length tss = length demo_girders \<and>
         (\<forall>k < length demo_girders. \<exists>axis outline hatch.
            tss ! k = [axis, outline, hatch] \<and>
            t_y outline = stepped_outline (HEIGHT_SCALE sc) (vss ! k) \<and>
            t_line outline = Colorscale (stepped_outline_colors (vss ! k)) (C_MIN sc) (C_MAX sc) False \<and>
            t_y hatch = stepped_fence (HEIGHT_SCALE sc) (vss ! k) \<and>
            t_line hatch = Colorscale (stepped_fence_colors (vss ! k)) (C_MIN sc) (C_MAX sc)
               (fst (demo_girders ! k) = ''Girder 1''))" ..
  then obtain tss where all: "collect (girder_samples demo_ds ''Vy_i'' ''Vy_j'') demo_girders = Inr vss \<and>
         global_scaling (concat (map pair_list vss)) = Inr sc \<and>
         HEIGHT_SCALE sc = 5 / Max (set (map abs (concat (map pair_list vss)))) \<and>
         C_MIN sc = Min (set (concat (map pair_list vss))) \<and>
         C_MAX sc = Max (set (concat (map pair_list vss))) \<and>
         traces3d f3 = concat tss \<and> length tss = length demo_girders \<and>
         (\<forall>k < length demo_girders. \<exists>axis outline hatch.
            tss ! k = [axis, outline, hatch] \<and>
            t_y outline = stepped_outline (HEIGHT_SCALE sc) (vss ! k) \<and>
            t_line outline = Colorscale (stepped_outline_colors (vss ! k)) (C_MIN sc) (C_MAX sc) False \<and>
            t_y hatch = stepped_fence (HEIGHT_SCALE sc) (vss ! k) \<and>
            t_line hatch = Colorscale (stepped_fence_colors (vss ! k)) (C_MIN sc) (C_MAX sc)
               (fst (demo_girders ! k) = ''Girder 1''))" ..
  note a = all [THEN conjunct1]
  note h = all [THEN conjunct2, THEN conjunct2, THEN conjunct1]
  note t = all [THEN conjunct2, THEN conjunct2, THEN conjunct2, THEN conjunct2, THEN conjunct2, THEN conjunct1]
  note l = all [THEN conjunct2, THEN conjunct2, THEN conjunct2, THEN conjunct2, THEN conjunct2, THEN conjunct2, THEN conjunct1]
  note k = all [THEN conjunct2, THEN conjunct2, THEN conjunct2, THEN conjunct2, THEN conjunct2, THEN conjunct2, THEN conjunct2]
  from a have v: "vss = [[(10, 10), (- 4, - 4)], [(1, 7), (1, 1)]]"
    unfolding demo_samples_shear by simp
  from h have h': "HEIGHT_SCALE sc = 1 / 2"
    unfolding v by (simp add: pair_list_def)
  have two: "length demo_girders = 2" by (simp add: demo_girders_def)
  from k [rule_format, of 0] two obtain a0 o0 h0 where t0: "tss ! 0 = [a0, o0, h0]"
    by auto
  from k [rule_format, of "Suc 0"] two obtain a1 o1 h1 where t1: "tss ! Suc 0 = [a1, o1, h1]"
    and y1: "t_y o1 = stepped_outline (HEIGHT_SCALE sc) (vss ! Suc 0)"
    by auto
  from y1 have "t_y o1 = [Some (1 / 2), Some (1 / 2), None, Some (1 / 2), Some (1 / 2), None]"
    by (simp add: v h' stepped_outline_def)
  moreover from l two t0 t1 have "concat tss = [a0, o0, h0, a1, o1, h1]"
    by (intro concat_two_triples) simp_all
  ultimately have "map t_y (traces3d f3) ! 4 = [Some (1 / 2), Some (1 / 2), None, Some (1 / 2), Some (1 / 2), None]"
    using t by simp
  with f y i f3 diagram_type_demo(1) show ?thesis
    apply -
    apply (rule exI [of _ f])
    apply (rule exI [of _ f3])
    apply (intro conjI)
    apply assumption+
    done
qed

text \<open>
  C3 as stated fails in the 3D figure, where the end-node sample enters the segment's
  geometry through the height scale: with the end sample of element 3 changed from 7 to
  100, the stepped outline of Girder 2 has the height 1/20 instead of 1/2.
\<close>

theorem stepped_end_sample_counterexample:
  "demo_ds (3, ''Vy_j'') = Some 7 \<and>
   map t_y (traces3d (projr (plot_girders demo_ds demo_members demo_nodes demo_girders (3 / 2)
      ''Vy_i'' ''Vy_j'' ''SFD''))) ! 4
     = [Some (1 / 2), Some (1 / 2), None, Some (1 / 2), Some (1 / 2), None] \<and>
   map t_y (traces3d (projr (plot_girders (demo_ds((3, ''Vy_j'') \<mapsto> 100)) demo_members demo_nodes
      demo_girders (3 / 2) ''Vy_i'' ''Vy_j'' ''SFD''))) ! 4
     = [Some (1 / 20), Some (1 / 20), None, Some (1 / 20), Some (1 / 20), None]"
proof -
  have two: "length demo_girders = 2" by (simp add: demo_girders_def)
  from demo_plot_shear obtain f where
    f: "plot_girders demo_ds demo_members demo_nodes demo_girders (3 / 2) ''Vy_i'' ''Vy_j'' ''SFD'' = Inr f"
    by blast
  from stepped_outline_second_girder [OF f diagram_type_demo(1) two demo_samples_shear demo_scaling_shear]
  have a: "map t_y (traces3d f) ! 4 = [Some (1 / 2), Some (1 / 2), None, Some (1 / 2), Some (1 / 2), None]"
    by (simp add: stepped_outline_def)
  from demo_changed_plot obtain f' where
    f': "plot_girders (demo_ds((3, ''Vy_j'') \<mapsto> 100)) demo_members demo_nodes demo_girders (3 / 2)
           ''Vy_i'' ''Vy_j'' ''SFD'' = Inr f'"
    by blast
  from stepped_outline_second_girder [OF f' diagram_type_demo(1) two demo_changed_samples demo_changed_scaling]
  have b: "map t_y (traces3d f') ! 4 = [Some (1 / 20), Some (1 / 20), None, Some (1 / 20), Some (1 / 20), None]"
    by (simp add: stepped_outline_def)
  have "demo_ds (3, ''Vy_j'') = Some 7" by (simp add: demo_ds_def)
  with a b show ?thesis by (simp add: f f')
qed




text \<open>
  C5. When the dataset has no value for a requested element and component, the run ends
  in the exception and returns no figure; no value is put in its place. In the 3D script
  the exception is the dataset's KeyError; in the 2D script too when the tables resolve
  every element of the girder, and a KeyError of an earlier table lookup otherwise.
\<close>

theorem missing_data_aborts:
  assumes "ds (eid, ci) = None \<or> ds (eid, cj) = None"
  shows "(eid \<in> set girder \<longrightarrow>
            (\<exists>origin. plot_girder ds members nodes girder ci cj title color unit is_step
                = Inl (KeyError origin)) \<and>
            (list_all (topology_resolves members nodes) girder \<longrightarrow>
               plot_girder ds members nodes girder ci cj title color unit is_step
                = Inl (KeyError Dataset))) \<and>
         (\<forall>g \<in> set girders. eid \<in> set (g_elements (snd g)) \<longrightarrow>
            plot_girders ds members nodes girders ze ci cj title3 = Inl (KeyError Dataset))"
  using plot_girder_missing [OF _ assms] plot_girder_missing_dataset [OF _ assms]
    plot_girders_missing [OF _ _ assms]
  by blast

theorem missing_data_aborts_witness:
  "demo_ds (2, ''Fx_i'') = None \<and>
   plot_girder demo_ds demo_members demo_nodes [1, 2] ''Fx_i'' ''Mz_j'' ''BMD'' ''red'' ''kN-m'' False
     = Inl (KeyError Dataset) \<and>
   plot_girders demo_ds demo_members demo_nodes demo_girders (3 / 2) ''Fx_i'' ''Mz_j'' ''BMD''
     = Inl (KeyError Dataset)"
proof -
  have m: "demo_ds (2, ''Fx_i'') = None \<or> demo_ds (2, ''Mz_j'') = None"
    by (simp add: demo_ds_def)
  have t: "list_all (topology_resolves demo_members demo_nodes) [1, 2]"
    by (simp add: topology_resolves_def demo_members_def demo_nodes_def)
  have g: "(''Girder 1'', \<lparr>g_elements = [1, 2], g_nodes = [1, 2, 3]\<rparr>) \<in> set demo_girders"
    by (simp add: demo_girders_def)
  from missing_data_aborts [OF m, where girder = "[1, 2]" and members = demo_members
      and nodes = demo_nodes and title = "''BMD''" and color = "''red''" and unit = "''kN-m''"
      and is_step = False and girders = demo_girders and ze = "3 / 2" and ?title3.0 = "''BMD''"] t g
  have "plot_girder demo_ds demo_members demo_nodes [1, 2] ''Fx_i'' ''Mz_j'' ''BMD'' ''red'' ''kN-m'' False
     = Inl (KeyError Dataset)"
    and "plot_girders demo_ds demo_members demo_nodes demo_girders (3 / 2) ''Fx_i'' ''Mz_j'' ''BMD''
     = Inl (KeyError Dataset)"
    by fastforce+
  then show ?thesis by (simp add: demo_ds_def)
qed

text \<open>
  C6. For a girder whose element list is contiguous (each element ends at the node where
  the next one starts), the profile has one segment for each element, in the order of the
  list, and each segment starts at the position where the one before it ends. In the
  2D figure the positions are the x-coordinates of the boundary path; in the 3D figure
  they are the (x, z) points of each girder's outline.
\<close>

theorem contiguous_girder_profile_has_no_gaps:
  "(plot_girder ds members nodes girder ci cj title color unit is_step = Inr f \<longrightarrow>
      (\<exists>inps. collect (element_inputs ds members nodes ci cj) girder = Inr inps \<and>
         map scatter_x (traces f) = [pair_list (map segment_x inps)] \<and>
         (contiguous members girder \<longrightarrow> gap_free (map segment_x inps)))) \<and>
   (plot_girders ds members nodes girders ze ci cj title3 = Inr f3 \<longrightarrow>
      (\<exists>tss. traces3d f3 = concat tss \<and> length tss = length girders \<and>
         (\<forall>k < length girders. \<exists>axis outline hatch inps.
            tss ! k = [axis, outline, hatch] \<and>
            collect (element_inputs3d ds members nodes ze ci cj) (g_elements (snd (girders ! k))) = Inr inps \<and>
            t_x outline = broken_line (map (\<lambda>s. (fst (fst s), fst (snd s))) (map segment_xz inps)) \<and>
            t_z outline = broken_line (map (\<lambda>s. (snd (fst s), snd (snd s))) (map segment_xz inps)) \<and>
            (contiguous members (g_elements (snd (girders ! k))) \<longrightarrow>
               gap_free (map segment_xz inps)))))"
  using gaps_2d [of ds members nodes girder ci cj title color unit is_step f]
    gaps_3d [of ds members nodes girders ze ci cj title3 f3]
  by (intro conjI impI)

theorem contiguous_girder_profile_has_no_gaps_witness:
  "\<exists>f f3.
     plot_girder demo_ds demo_members demo_nodes [1, 2] ''Vy_i'' ''Vy_j'' ''SFD'' ''blue'' ''kN'' True = Inr f \<and>
     contiguous demo_members [1, 2] \<and>
     map scatter_x (traces f) = [[0, 4, 4, 6]] \<and>
     gap_free [(0, 4), (4, 6 :: real)] \<and>
     plot_girders demo_ds demo_members demo_nodes demo_girders (3 / 2) ''Vy_i'' ''Vy_j'' ''SFD'' = Inr f3 \<and>
     contiguous demo_members (g_elements (snd (demo_girders ! 1))) \<and>
     map t_x (traces3d f3) ! 4 = [Some 0, Some 4, None, Some 4, Some 4, None] \<and>
     map t_z (traces3d f3) ! 4 = [Some 3, Some 3, None, Some 3, Some (9 / 2), None] \<and>
     gap_free [((0 :: real, 3 :: real), (4, 3)), ((4, 3), (4, 9 / 2))]"
proof -
  from plot_girder_succeeds [OF demo_shear_collect] obtain f where
    f: "plot_girder demo_ds demo_members demo_nodes [1, 2] ''Vy_i'' ''Vy_j'' ''SFD'' ''blue'' ''kN'' True = Inr f"
    by blast
  from demo_plot_shear obtain f3 where
    f3: "plot_girders demo_ds demo_members demo_nodes demo_girders (3 / 2) ''Vy_i'' ''Vy_j'' ''SFD'' = Inr f3"
    by blast
  have c1: "contiguous demo_members (g_elements (snd (demo_girders ! Suc 0)))"
    by (simp add: demo_girders_def demo_contiguous del: contiguous.simps)
  note inst = contiguous_girder_profile_has_no_gaps [of demo_ds demo_members demo_nodes "[1, 2]"
      "''Vy_i''" "''Vy_j''" "''SFD''" "''blue''" "''kN''" True f demo_girders "3 / 2" "''SFD''" f3]
  from inst [THEN conjunct1] f have
    "\<exists>inps. collect (element_inputs demo_ds demo_members demo_nodes ''Vy_i'' ''Vy_j'') [1, 2] = Inr inps \<and>
         map scatter_x (traces f) = [pair_list (map segment_x inps)] \<and>
         (contiguous demo_members [1, 2] \<longrightarrow> gap_free (map segment_x inps))"
    by (rule mp)
  then obtain inps2 where
    a2: "collect (element_inputs demo_ds demo_members demo_nodes ''Vy_i'' ''Vy_j'') [1, 2] = Inr inps2"
    and s2: "map scatter_x (traces f) = [pair_list (map segment_x inps2)]"
    and g2: "contiguous demo_members [1, 2] \<longrightarrow> gap_free (map segment_x inps2)"
    by (elim exE conjE)
  from a2 have i2: "inps2 = [(0, 4, 10, 10), (4, 6, - 4, - 4)]"
    unfolding demo_shear_collect by simp
  from s2 have x2: "map scatter_x (traces f) = [[0, 4, 4, 6]]"
    unfolding i2 by (simp add: pair_list_def segment_x_def)
  from g2 demo_contiguous(1) have gf2: "gap_free [(0, 4), (4, 6 :: real)]"
    unfolding i2 by (simp add: segment_x_def del: contiguous.simps gap_free.simps)
  from inst [THEN conjunct2] f3 have
    "\<exists>tss. traces3d f3 = concat tss \<and> length tss = length demo_girders \<and>
         (\<forall>k < length demo_girders. \<exists>axis outline hatch inps.
            tss ! k = [axis, outline, hatch] \<and>
            collect (element_inputs3d demo_ds demo_members demo_nodes (3 / 2) ''Vy_i'' ''Vy_j'')
               (g_elements (snd (demo_girders ! k))) = Inr inps \<and>
            t_x outline = broken_line (map (\<lambda>s. (fst (fst s), fst (snd s))) (map segment_xz inps)) \<and>
            t_z outline = broken_line (map (\<lambda>s. (snd (fst s), snd (snd s))) (map segment_xz inps)) \<and>
            (contiguous demo_members (g_elements (snd (demo_girders ! k))) \<longrightarrow>
               gap_free (map segment_xz inps)))"
    by (rule mp)
  then obtain tss where
    t: "traces3d f3 = concat tss" and l: "length tss = length demo_girders"
    and k: "\<forall>k < length demo_girders. \<exists>axis outline hatch inps.
            tss ! k = [axis, outline, hatch] \<and>
            collect (element_inputs3d demo_ds demo_members demo_nodes (3 / 2) ''Vy_i'' ''Vy_j'')
               (g_elements (snd (demo_girders ! k))) = Inr inps \<and>
            t_x outline = broken_line (map (\<lambda>s. (fst (fst s), fst (snd s))) (map segment_xz inps)) \<and>
            t_z outline = broken_line (map (\<lambda>s. (snd (fst s), snd (snd s))) (map segment_xz inps)) \<and>
            (contiguous demo_members (g_elements (snd (demo_girders ! k))) \<longrightarrow>
               gap_free (map segment_xz inps))"
    by (elim exE conjE)
  have two: "length demo_girders = 2" by (simp add: demo_girders_def)
  from k [rule_format, of 0] two obtain a0 o0 h0 where t0: "tss ! 0 = [a0, o0, h0]"
    by auto
  from k [rule_format, of "Suc 0"] two obtain a1 o1 h1 inps where t1: "tss ! Suc 0 = [a1, o1, h1]"
    and i: "collect (element_inputs3d demo_ds demo_members demo_nodes (3 / 2) ''Vy_i'' ''Vy_j'')
               (g_elements (snd (demo_girders ! Suc 0))) = Inr inps"
    and x: "t_x o1 = broken_line (map (\<lambda>s. (fst (fst s), fst (snd s))) (map segment_xz inps))"
    and z: "t_z o1 = broken_line (map (\<lambda>s. (snd (fst s), snd (snd s))) (map segment_xz inps))"
    and g: "contiguous demo_members (g_elements (snd (demo_girders ! Suc 0))) \<longrightarrow>
               gap_free (map segment_xz inps)"
    by auto
  from i have ii: "inps = [(0, 2 * (3 / 2), 4, 2 * (3 / 2), 1, 7), (4, 2 * (3 / 2), 4, 3 * (3 / 2), 1, 1)]"
    using demo_inputs3d_shear(2) [of "3 / 2"] by (simp add: demo_girders_def del: collect.simps)
  from x z have xs: "t_x o1 = [Some 0, Some 4, None, Some 4, Some 4, None]"
    and zs: "t_z o1 = [Some 3, Some 3, None, Some 3, Some (9 / 2), None]"
    unfolding ii by (simp_all add: broken_line_def segment_xz_def)
  from g c1 have gf3: "gap_free [((0 :: real, 3 :: real), (4, 3)), ((4, 3), (4, 9 / 2))]"
    unfolding ii by (simp add: segment_xz_def del: contiguous.simps gap_free.simps)
  from l two t0 t1 have "concat tss = [a0, o0, h0, a1, o1, h1]"
    by (intro concat_two_triples) simp_all
  with t xs zs have x3: "map t_x (traces3d f3) ! 4 = [Some 0, Some 4, None, Some 4, Some 4, None]"
    and z3: "map t_z (traces3d f3) ! 4 = [Some 3, Some 3, None, Some 3, Some (9 / 2), None]"
    by simp_all
  from c1 have c1': "contiguous demo_members (g_elements (snd (demo_girders ! 1)))" by simp
  from f demo_contiguous(1) x2 gf2 f3 c1' x3 z3 gf3 show ?thesis
    apply -
    apply (rule exI [of _ f])
    apply (rule exI [of _ f3])
    apply (intro conjI)
    apply assumption+
    done
qed

text \<open>
  C7, amended. The hatching of an element has evenly spaced sample positions from the
  element's start to its end, both ends included: twelve in the 2D figure, at
  \<open>x_i + k * (x_j - x_i) / 11\<close> for \<open>k = 0, \<dots>, 11\<close>, and eleven in the 3D figure, at
  the fractions \<open>k / 10\<close> for \<open>k = 0, \<dots>, 10\<close> (ten intervals). The value of a sample is
  the start sample in stepped mode and the linear interpolation at its fraction in linear
  mode (in the 2D figure not-a-number when \<open>x_i = x_j\<close>); in the 3D figure the height is
  this value times the height scale and the colour is this value.
\<close>

theorem hatch_samples_include_both_ends:
  "shapes (fig (element_update is_step (x_i, x_j, val_i, val_j) st)) =
     shapes (fig st) @ map (hatch_sample is_step x_i x_j val_i val_j) [0..<12] \<and>
   sh_x0 (hatch_sample is_step x_i x_j val_i val_j 0) = x_i \<and>
   sh_x0 (hatch_sample is_step x_i x_j val_i val_j 11) = x_j \<and>
   snd (element_update3d dtype scale (x1, z1, x2, z2, val1, val2) st3) =
     extend_polyline (snd st3)
       (join_polylines (map (fence_sample dtype scale x1 z1 x2 z2 val1 val2) [0..<11])) \<and>
   p_x (fence_sample dtype scale x1 z1 x2 z2 val1 val2 0) = [Some x1, Some x1, None] \<and>
   p_x (fence_sample dtype scale x1 z1 x2 z2 val1 val2 10) = [Some x2, Some x2, None] \<and>
   fence_lines (join_polylines (map (fence_sample dtype scale x1 z1 x2 z2 val1 val2) [0..<11])) = 11"
proof -
  have "fence_lines (join_polylines (map (fence_sample dtype scale x1 z1 x2 z2 val1 val2) ks)) = length ks"
    for ks
    by (induction ks) (simp_all add: fence_lines_def p_x_join fence_sample_def)
  then have "fence_lines (join_polylines (map (fence_sample dtype scale x1 z1 x2 z2 val1 val2) [0..<11])) = 11"
    by simp
  moreover have "sh_x0 (hatch_sample is_step x_i x_j val_i val_j 0) = x_i"
    and "sh_x0 (hatch_sample is_step x_i x_j val_i val_j 11) = x_j"
    by (simp_all add: hatch_sample_def field_simps)
  moreover have "p_x (fence_sample dtype scale x1 z1 x2 z2 val1 val2 0) = [Some x1, Some x1, None]"
    and "p_x (fence_sample dtype scale x1 z1 x2 z2 val1 val2 10) = [Some x2, Some x2, None]"
    by (simp_all add: fence_sample_def interpolate_def)
  ultimately show ?thesis
    using element_hatch_samples [of is_step x_i x_j val_i val_j st]
      element_fence_samples [of dtype scale x1 z1 x2 z2 val1 val2 st3]
    by (intro conjI)
qed

text \<open>
  C7 as stated fails in the 3D figure: the fence of an element has eleven lines, not
  \<open>num_lines = 10\<close>, and its first and last line stand at the element's two ends, not
  in its interior.
\<close>

theorem hatch_density_counterexample:
  "fence_lines (hatch_piece 0 0 4 0 (element_heights ''BMD'' (1 / 2) 10 (- 5))) \<noteq> num_lines \<and>
   p_x (hatch_line 0 0 4 0 (element_heights ''BMD'' (1 / 2) 10 (- 5)) 0) = [Some 0, Some 0, None] \<and>
   p_x (hatch_line 0 0 4 0 (element_heights ''BMD'' (1 / 2) 10 (- 5)) 10) = [Some 4, Some 4, None]"
proof -
  have "fence_lines (join_polylines (map (hatch_line 0 0 4 0 (element_heights ''BMD'' (1 / 2) 10 (- 5))) ks))
      = length ks" for ks
    by (induction ks)
       (simp_all add: fence_lines_def p_x_join hatch_line_def element_heights_def Let_def)
  then have "fence_lines (hatch_piece 0 0 4 0 (element_heights ''BMD'' (1 / 2) 10 (- 5))) = 11"
    by (simp add: hatch_piece_join num_lines_def del: upt.simps)
  then show ?thesis
    by (simp add: num_lines_def hatch_line_def element_heights_def Let_def)
qed

text \<open>
  C8. The finished figure of a girder carries exactly two extremum labels, \<^verbatim>\<open>MAX\<close>
  then \<^verbatim>\<open>MIN\<close>, each at a point of the boundary path with its value; the labelled
  points are the first maximum and the first minimum of the path in girder order.
\<close>

theorem one_global_maximum_and_minimum:
  assumes "plot_girder ds members nodes girder ci cj title color unit is_step = Inr f"
  shows "\<exists>inps max_idx min_idx.
           collect (element_inputs ds members nodes ci cj) girder = Inr inps \<and>
           first_maximum (profile_y is_step inps) max_idx \<and>
           first_minimum (profile_y is_step inps) min_idx \<and>
           filter (\<lambda>a. \<not> is_zero_label a) (annotations f) =
             [\<lparr>ann_x = profile_x inps ! max_idx, ann_y = profile_y is_step inps ! max_idx,
               ann_text = ExtremeText ''MAX'' (profile_y is_step inps ! max_idx) unit\<rparr>,
              \<lparr>ann_x = profile_x inps ! min_idx, ann_y = profile_y is_step inps ! min_idx,
               ann_text = ExtremeText ''MIN'' (profile_y is_step inps ! min_idx) unit\<rparr>]"
proof -
  from plot_girder_Inr [OF assms] obtain inps where
    a: "collect (element_inputs ds members nodes ci cj) girder = Inr inps"
    and b: "finish_plot title color unit (fold (element_update is_step) inps initial_state) = Inr f"
    by blast
  let ?st = "fold (element_update is_step) inps initial_state"
  have x: "x_full_path ?st = profile_x inps" by (simp add: x_path_fold initial_fig profile_x_def)
  have y: "y_full_path ?st = profile_y is_step inps" by (simp add: y_path_fold initial_fig profile_y_def)
  from finish_plot_Inr [OF b] obtain max_idx min_idx where
    mx: "argmax (y_full_path ?st) = Inr max_idx" and mn: "argmin (y_full_path ?st) = Inr min_idx"
    and c: "annotations f = annotations (fig ?st) @
          [extreme_annotation ?st unit max_idx ''MAX'', extreme_annotation ?st unit min_idx ''MIN'']"
    by blast
  have d: "filter (\<lambda>a. \<not> is_zero_label a) (annotations (fig ?st)) = []"
    unfolding annotations_fold initial_fig
    by (auto simp: filter_empty_conv zero_crossing_def is_zero_label_def Let_def split: if_splits)
  have "filter (\<lambda>a. \<not> is_zero_label a) (annotations f) =
      [extreme_annotation ?st unit max_idx ''MAX'', extreme_annotation ?st unit min_idx ''MIN'']"
    unfolding c using d by (simp add: not_zero_label_extreme)
  moreover have "first_maximum (profile_y is_step inps) max_idx"
    using argmax_first [OF mx] y by simp
  moreover have "first_minimum (profile_y is_step inps) min_idx"
    using argmin_first [OF mn] y by simp
  ultimately show ?thesis using a x y
    by (auto simp: extreme_annotation_def)
qed

theorem one_global_maximum_and_minimum_witness:
  "\<exists>f. plot_girder demo_ds demo_members demo_nodes [1, 2] ''Vy_i'' ''Vy_j'' ''SFD'' ''blue'' ''kN'' True = Inr f \<and>
       filter (\<lambda>a. \<not> is_zero_label a) (annotations f) =
         [\<lparr>ann_x = 0, ann_y = 10, ann_text = ExtremeText ''MAX'' 10 ''kN''\<rparr>,
          \<lparr>ann_x = 4, ann_y = - 4, ann_text = ExtremeText ''MIN'' (- 4) ''kN''\<rparr>]"
proof -
  have c: "collect (element_inputs demo_ds demo_members demo_nodes ''Vy_i'' ''Vy_j'') [1, 2]
             = Inr [(0, 4, 10, 10), (4, 6, - 4, - 4)]"
    by (simp add: demo_inputs_shear and_then_Inr)
  from plot_girder_succeeds [OF c] obtain f where
    f: "plot_girder demo_ds demo_members demo_nodes [1, 2] ''Vy_i'' ''Vy_j'' ''SFD'' ''blue'' ''kN'' True = Inr f"
    by blast
  let ?xs = "profile_x [(0, 4, 10, 10), (4, 6, - 4, - 4)]"
  let ?ys = "profile_y True [(0, 4, 10, 10), (4, 6, - 4, - 4)]"
  from one_global_maximum_and_minimum [OF f] c obtain max_idx min_idx where
    mx: "first_maximum ?ys max_idx" and mn: "first_minimum ?ys min_idx"
    and a: "filter (\<lambda>a. \<not> is_zero_label a) (annotations f) =
             [\<lparr>ann_x = ?xs ! max_idx, ann_y = ?ys ! max_idx,
               ann_text = ExtremeText ''MAX'' (?ys ! max_idx) ''kN''\<rparr>,
              \<lparr>ann_x = ?xs ! min_idx, ann_y = ?ys ! min_idx,
               ann_text = ExtremeText ''MIN'' (?ys ! min_idx) ''kN''\<rparr>]"
    by auto
  have "first_maximum ?ys 0" by (simp add: first_maximum_def profile_y_def)
  with mx have "max_idx = 0" by (rule first_maximum_unique)
  moreover have "first_minimum ?ys 2" by (simp add: first_minimum_def profile_y_def)
  with mn have "min_idx = 2" by (rule first_minimum_unique)
  ultimately show ?thesis using f a by (simp add: profile_x_def profile_y_def)
qed

text \<open>
  C9. The depth expansion factor changes the z-coordinates and nothing else. A run with
  the factor \<open>ze\<close> gives the result of the run with factor 1 with every z-coordinate
  multiplied by \<open>ze\<close>; so two runs that differ in the factor only agree on the outcome
  (figure or exception) and, with the z-coordinates erased, on the whole figure: the
  x-coordinates, the scaled heights, the colour values and the colour limits.
\<close>

theorem expansion_changes_only_depth:
  "plot_girders ds members nodes girders ze ci cj title =
     map_sum id (expand_z ze) (plot_girders ds members nodes girders 1 ci cj title) \<and>
   map_sum id erase_z (plot_girders ds members nodes girders ze ci cj title) =
     map_sum id erase_z (plot_girders ds members nodes girders ze' ci cj title)"
proof
  show "plot_girders ds members nodes girders ze ci cj title =
     map_sum id (expand_z ze) (plot_girders ds members nodes girders 1 ci cj title)"
    by (rule plot_girders_expand)
  have e: "map_sum id erase_z (plot_girders ds members nodes girders z ci cj title) =
      map_sum id erase_z (plot_girders ds members nodes girders 1 ci cj title)" for z
    by (subst plot_girders_expand)
       (cases "plot_girders ds members nodes girders 1 ci cj title"; simp add: erase_expand)
  show "map_sum id erase_z (plot_girders ds members nodes girders ze ci cj title) =
     map_sum id erase_z (plot_girders ds members nodes girders ze' ci cj title)"
    using e [of ze] e [of ze'] by (rule trans [OF _ sym])
qed

text \<open>
  C10. In the 2D linear-mode hatching every hatch value is
  \<open>val_i + (val_j - val_i) * (hx - x_i) / (x_j - x_i)\<close>, a division by the difference of
  the element's end x-coordinates. For an element with \<open>x_i \<noteq> x_j\<close> all twelve values
  are defined and given by this formula; for an element with \<open>x_i = x_j\<close> none of them
  is (numpy's \<^verbatim>\<open>0/0\<close>, not-a-number).
\<close>

theorem hatch_defined_iff_distinct_x:
  assumes "plot_girder ds members nodes girder ci cj title color unit False = Inr f"
  shows "\<exists>inps. collect (element_inputs ds members nodes ci cj) girder = Inr inps \<and>
           shapes f = concat (map linear_hatch inps) \<and>
           (\<forall>(x_i, x_j, val_i, val_j) \<in> set inps.
              length (linear_hatch (x_i, x_j, val_i, val_j)) = 12 \<and>
              (x_i \<noteq> x_j \<longrightarrow>
                 (\<forall>sh \<in> set (linear_hatch (x_i, x_j, val_i, val_j)).
                    sh_y1 sh = Some (val_i + (val_j - val_i) * (sh_x0 sh - x_i) / (x_j - x_i)))) \<and>
              (x_i = x_j \<longrightarrow>
                 (\<forall>sh \<in> set (linear_hatch (x_i, x_j, val_i, val_j)). sh_y1 sh = None)))"
proof -
  from plot_girder_Inr [OF assms] obtain inps where
    a: "collect (element_inputs ds members nodes ci cj) girder = Inr inps"
    and b: "finish_plot title color unit (fold (element_update False) inps initial_state) = Inr f"
    by blast
  from finish_plot_Inr [OF b] have "shapes f = concat (map linear_hatch inps)"
    by (auto simp: shapes_linear)
  moreover have "\<forall>(x_i, x_j, val_i, val_j) \<in> set inps.
              length (linear_hatch (x_i, x_j, val_i, val_j)) = 12 \<and>
              (x_i \<noteq> x_j \<longrightarrow>
                 (\<forall>sh \<in> set (linear_hatch (x_i, x_j, val_i, val_j)).
                    sh_y1 sh = Some (val_i + (val_j - val_i) * (sh_x0 sh - x_i) / (x_j - x_i)))) \<and>
              (x_i = x_j \<longrightarrow>
                 (\<forall>sh \<in> set (linear_hatch (x_i, x_j, val_i, val_j)). sh_y1 sh = None))"
    by (auto simp: linear_hatch_def length_linspace hatch_density_def hatch_shape_def
          hatch_value_linear_defined hatch_value_linear_undefined)
  ultimately show ?thesis using a by blast
qed

theorem hatch_defined_iff_distinct_x_witness:
  "\<exists>f. plot_girder demo_ds demo_members demo_nodes [3, 4] ''Mz_i'' ''Mz_j'' ''BMD'' ''red'' ''kN-m'' False = Inr f \<and>
       shapes f = linear_hatch (0, 4, 2, 3) @ linear_hatch (4, 4, 1, 2) \<and>
       sh_y1 (hd (linear_hatch (0, 4, 2, 3))) = Some 2 \<and>
       sh_y1 (hd (linear_hatch (4, 4, 1, 2))) = None"
proof -
  have c: "collect (element_inputs demo_ds demo_members demo_nodes ''Mz_i'' ''Mz_j'') [3, 4]
             = Inr [(0, 4, 2, 3), (4, 4, 1, 2)]"
    by (simp add: demo_inputs_moment2 and_then_Inr)
  from plot_girder_succeeds [OF c] obtain f where
    f: "plot_girder demo_ds demo_members demo_nodes [3, 4] ''Mz_i'' ''Mz_j'' ''BMD'' ''red'' ''kN-m'' False = Inr f"
    by blast
  from hatch_defined_iff_distinct_x [OF f] c have
    a: "shapes f = linear_hatch (0, 4, 2, 3) @ linear_hatch (4, 4, 1, 2)"
    and b: "\<forall>sh \<in> set (linear_hatch (0, 4, 2, 3)). sh_y1 sh = Some (2 + (3 - 2) * (sh_x0 sh - 0) / (4 - 0))"
    and d: "\<forall>sh \<in> set (linear_hatch (4, 4, 1, 2)). sh_y1 sh = None"
    by auto
  have "sh_x0 (hd (linear_hatch (0, 4, 2, 3))) = 0"
    by (simp add: linear_hatch_def hatch_density_def linspace_map hd_map upt_conv_Cons hatch_shape_def)
  with b have "sh_y1 (hd (linear_hatch (0, 4, 2, 3))) = Some 2"
    using linear_hatch_nonempty [of "(0, 4, 2, 3)"] by (simp del: One_nat_def)
  moreover from d have "sh_y1 (hd (linear_hatch (4, 4, 1, 2))) = None"
    using linear_hatch_nonempty [of "(4, 4, 1, 2)"] by simp
  ultimately show ?thesis using f a by blast
qed

end
